theory Spec2Isabelle
  imports Complex_Main
begin

section \<open>Python values\<close>

text \<open>
  A Python \<^verbatim>\<open>str\<close> is a sequence of Unicode code points, so a string is a list of
  natural numbers. \<open>ustr\<close> reads an ASCII literal; the accented letters and symbols of
  the source are written by their code point (\<open>0xE3\<close> is a-tilde, \<open>0xED\<close> i-acute,
  \<open>0xF3\<close> o-acute, \<open>0x26A0\<close> the warning sign).
\<close>

type_synonym ustring = "nat list"

definition ustr :: "string \<Rightarrow> ustring" where
  "ustr s = map of_char s"

text \<open>
  A Python \<^verbatim>\<open>float\<close>: a finite binary64 value, held as the rational it denotes, or
  one of the three special values. Negative zero is identified with zero (both are falsy,
  both add and truncate like zero).
\<close>

datatype pyfloat = Fin rat | PosInf | NegInf | NaN

text \<open>
  The values an attribute can hold (section 3 of the specification: a number, a boolean
  or a string), and \<^verbatim>\<open>None\<close>, which \<^verbatim>\<open>dict.get\<close> returns for a missing key.
\<close>

datatype pyval = PNone | PBool bool | PInt int | PFloat pyfloat | PStr ustring

datatype error = IndexError | AttributeError | ValueError | TypeError | OverflowError

section \<open>Parts\<close>

text \<open>
  \<^verbatim>\<open>
  @dataclass
  class Part:
      id: str
      category: str
      name: str
      price: float = 0.0
      attributes: Dict[str,Any] = field(default_factory=dict)
  \<close>
\<close>

record part =
  part_id :: ustring
  category :: ustring
  name :: ustring
  price :: pyfloat
  attributes :: "ustring \<rightharpoonup> pyval"

section \<open>Insertion-ordered dictionaries\<close>

text \<open>
  \<^verbatim>\<open>BuildEngine.parts\<close> is iterated (\<^verbatim>\<open>.values()\<close>), and a Python dict iterates in
  insertion order, so it is an association list. \<^verbatim>\<open>d[k] = v\<close> replaces the value of
  an existing key in place and appends a new key; \<^verbatim>\<open>del d[k]\<close> drops the entry.
\<close>

type_synonym ('k, 'v) dict = "('k \<times> 'v) list"

fun dict_set :: "'k \<Rightarrow> 'v \<Rightarrow> ('k, 'v) dict \<Rightarrow> ('k, 'v) dict" where
  "dict_set k v [] = [(k, v)]"
| "dict_set k v ((k', v') # d) =
     (if k' = k then (k, v) # d else (k', v') # dict_set k v d)"

fun dict_del :: "'k \<Rightarrow> ('k, 'v) dict \<Rightarrow> ('k, 'v) dict" where
  "dict_del k [] = []"
| "dict_del k ((k', v') # d) = (if k' = k then d else (k', v') # dict_del k d)"

definition dict_get :: "('k, 'v) dict \<Rightarrow> 'k \<Rightarrow> 'v option" where
  "dict_get d k = map_of d k"

definition dict_values :: "('k, 'v) dict \<Rightarrow> 'v list" where
  "dict_values d = map snd d"

text \<open>The number of entries a dictionary holds under one key.\<close>

definition occupants :: "('k, 'v) dict \<Rightarrow> 'k \<Rightarrow> 'v list" where
  "occupants d k = map snd (filter (\<lambda>e. fst e = k) d)"

section \<open>BuildEngine: the selection\<close>

text \<open>
  \<^verbatim>\<open>
  self.cat_map = {
      'Placa-mae': 'Placa-mae', 'Motherboard': 'Placa-mae',
      'GPU': 'GPU', 'Placa de Video': 'GPU',
      'CPU': 'CPU', 'Processador': 'CPU',
      'RAM': 'RAM', 'Memoria': 'RAM',
      'Fonte': 'Fonte', 'PSU': 'Fonte', 'Power Supply': 'Fonte',
      'Gabinete': 'Gabinete', 'Case': 'Gabinete',
      'Cooler': 'Cooler', 'AIO': 'Cooler', 'Air Cooler': 'Cooler',
      'SSD': 'Armazenamento', 'HDD': 'Armazenamento', 'Armazenamento': 'Armazenamento',
  }
  \<close>
  (with the accents of the source: \<open>Placa-m\<close>\<open>0xE3\<close>\<open>e\<close>, \<open>V\<close>\<open>0xED\<close>\<open>deo\<close>,
  \<open>Mem\<close>\<open>0xF3\<close>\<open>ria\<close>).
\<close>

definition s_placa_mae :: ustring where
  "s_placa_mae = ustr ''Placa-m'' @ [0xE3] @ ustr ''e''"

definition cat_map :: "(ustring, ustring) dict" where
  "cat_map =
    [(s_placa_mae, s_placa_mae), (ustr ''Motherboard'', s_placa_mae),
     (ustr ''GPU'', ustr ''GPU''), (ustr ''Placa de V'' @ [0xED] @ ustr ''deo'', ustr ''GPU''),
     (ustr ''CPU'', ustr ''CPU''), (ustr ''Processador'', ustr ''CPU''),
     (ustr ''RAM'', ustr ''RAM''), (ustr ''Mem'' @ [0xF3] @ ustr ''ria'', ustr ''RAM''),
     (ustr ''Fonte'', ustr ''Fonte''), (ustr ''PSU'', ustr ''Fonte''),
     (ustr ''Power Supply'', ustr ''Fonte''),
     (ustr ''Gabinete'', ustr ''Gabinete''), (ustr ''Case'', ustr ''Gabinete''),
     (ustr ''Cooler'', ustr ''Cooler''), (ustr ''AIO'', ustr ''Cooler''),
     (ustr ''Air Cooler'', ustr ''Cooler''),
     (ustr ''SSD'', ustr ''Armazenamento''), (ustr ''HDD'', ustr ''Armazenamento''),
     (ustr ''Armazenamento'', ustr ''Armazenamento'')]"

text \<open>The slot a part goes to: \<^verbatim>\<open>self.cat_map.get(p.category, p.category)\<close>.\<close>

definition slot_of :: "part \<Rightarrow> ustring" where
  "slot_of p = (case dict_get cat_map (category p) of Some c \<Rightarrow> c | None \<Rightarrow> category p)"

type_synonym selection = "(ustring, part) dict"

text \<open>
  \<^verbatim>\<open>
  def add(self, p: Part):
      cat = self.cat_map.get(p.category, p.category)
      self.parts[cat] = p

  def remove(self, category: str):
      if category in self.parts: del self.parts[category]
  \<close>
\<close>

definition BuildEngine_init :: selection where
  "BuildEngine_init = []"

definition BuildEngine_add :: "part \<Rightarrow> selection \<Rightarrow> selection" where
  "BuildEngine_add p parts = dict_set (slot_of p) p parts"

definition BuildEngine_remove :: "ustring \<Rightarrow> selection \<Rightarrow> selection" where
  "BuildEngine_remove c parts =
     (if dict_get parts c \<noteq> None then dict_del c parts else parts)"

text \<open>A sequence of select and deselect operations on an engine.\<close>

datatype engine_op = Select part | Deselect ustring

fun run_ops :: "engine_op list \<Rightarrow> selection \<Rightarrow> selection" where
  "run_ops [] parts = parts"
| "run_ops (Select p # ops) parts = run_ops ops (BuildEngine_add p parts)"
| "run_ops (Deselect c # ops) parts = run_ops ops (BuildEngine_remove c parts)"

text \<open>Two processors for the same slot, filed under different labels.\<close>

definition demo_cpu_a :: part where
  "demo_cpu_a = \<lparr>part_id = ustr ''cpu-a'', category = ustr ''Processador'',
     name = ustr ''CPU A'', price = Fin 900, attributes = Map.empty\<rparr>"

definition demo_cpu_b :: part where
  "demo_cpu_b = \<lparr>part_id = ustr ''cpu-b'', category = ustr ''CPU'',
     name = ustr ''CPU B'', price = Fin 1200, attributes = Map.empty\<rparr>"

section \<open>Python primitives\<close>

subsection \<open>Truth values and dictionary reads\<close>

text \<open>
  Python's truth test: \<^verbatim>\<open>None\<close>, \<^verbatim>\<open>False\<close>, zero and the empty string are falsy, every
  other value is truthy (NaN and the infinities included). \<^verbatim>\<open>a or b\<close> is \<^verbatim>\<open>a\<close> when
  \<^verbatim>\<open>a\<close> is truthy and \<^verbatim>\<open>b\<close> otherwise. A \<^verbatim>\<open>Part\<close> is a dataclass without
  \<^verbatim>\<open>__bool__\<close> or \<^verbatim>\<open>__len__\<close>, so a part is always truthy and \<^verbatim>\<open>if cpu\<close> tests
  that the slot is occupied.
\<close>

fun truthy :: "pyval \<Rightarrow> bool" where
  "truthy PNone = False"
| "truthy (PBool b) = b"
| "truthy (PInt i) = (i \<noteq> 0)"
| "truthy (PFloat f) = (f \<noteq> Fin 0)"
| "truthy (PStr s) = (s \<noteq> [])"

definition py_or :: "pyval \<Rightarrow> pyval \<Rightarrow> pyval" where
  "py_or a b = (if truthy a then a else b)"

text \<open>\<^verbatim>\<open>p.attributes.get(k)\<close>, and \<^verbatim>\<open>p.attributes.get(k, default)\<close>.\<close>

definition attr :: "part \<Rightarrow> ustring \<Rightarrow> pyval" where
  "attr p k = (case attributes p k of None \<Rightarrow> PNone | Some v \<Rightarrow> v)"

definition attr_default :: "part \<Rightarrow> ustring \<Rightarrow> pyval \<Rightarrow> pyval" where
  "attr_default p k d = (case attributes p k of None \<Rightarrow> d | Some v \<Rightarrow> v)"

subsection \<open>Binary64 arithmetic\<close>

text \<open>
  \<open>bit_length n\<close> is the number of binary digits of \<open>n\<close>, \<open>pow2 k\<close> is \<open>2\<close> to the
  power \<open>k\<close>, and \<open>ilog2 a\<close> is the integer part of the binary logarithm of a positive
  rational. \<open>round64\<close> rounds a rational to the nearest binary64 value, ties to even:
  53 significant bits, least exponent \<open>-1022\<close> (below it the spacing stays \<open>2\<close> to the
  \<open>-1074\<close>), and a result of \<open>2\<close> to the \<open>1024\<close> or more is an infinity.
\<close>

fun bit_length :: "nat \<Rightarrow> nat" where
  "bit_length n = (if n = 0 then 0 else Suc (bit_length (n div 2)))"

declare bit_length.simps [simp del]

definition pow2 :: "int \<Rightarrow> rat" where
  "pow2 k = (if 0 \<le> k then 2 ^ nat k else 1 / 2 ^ nat (- k))"

definition ilog2 :: "rat \<Rightarrow> int" where
  "ilog2 a = (if 1 \<le> a then int (bit_length (nat \<lfloor>a\<rfloor>)) - 1
              else - int (bit_length (nat (\<lceil>1 / a\<rceil> - 1))))"

definition round_half_even :: "rat \<Rightarrow> int" where
  "round_half_even q =
     (let n = \<lfloor>q\<rfloor>; r = q - of_int n
      in if r < 1 / 2 then n else if 1 / 2 < r then n + 1
         else if even n then n else n + 1)"

definition round64 :: "rat \<Rightarrow> pyfloat" where
  "round64 q =
     (if q = 0 then Fin 0
      else let a = \<bar>q\<bar>;
               e = max (ilog2 a) (- 1022);
               u = pow2 (e - 52);
               r = of_int (round_half_even (a / u)) * u
           in if pow2 1024 \<le> r then (if 0 < q then PosInf else NegInf)
              else Fin (if 0 < q then r else - r))"

text \<open>
  Addition and multiplication of floats. A finite sum or product is the exact result
  rounded; adding zero returns the other operand as it is (exact in binary64, and what
  rounding gives on every binary64 value). The special values follow IEEE 754.
\<close>

fun fadd :: "pyfloat \<Rightarrow> pyfloat \<Rightarrow> pyfloat" where
  "fadd NaN _ = NaN"
| "fadd _ NaN = NaN"
| "fadd PosInf NegInf = NaN"
| "fadd NegInf PosInf = NaN"
| "fadd PosInf _ = PosInf"
| "fadd _ PosInf = PosInf"
| "fadd NegInf _ = NegInf"
| "fadd _ NegInf = NegInf"
| "fadd (Fin a) (Fin b) =
     (if b = 0 then Fin a else if a = 0 then Fin b else round64 (a + b))"

definition fsign :: "pyfloat \<Rightarrow> int" where
  "fsign f = (case f of Fin a \<Rightarrow> sgn \<lfloor>sgn a\<rfloor> | PosInf \<Rightarrow> 1 | NegInf \<Rightarrow> - 1 | NaN \<Rightarrow> 0)"

fun fmul :: "pyfloat \<Rightarrow> pyfloat \<Rightarrow> pyfloat" where
  "fmul (Fin a) (Fin b) = round64 (a * b)"
| "fmul NaN _ = NaN"
| "fmul _ NaN = NaN"
| "fmul x y =
     (if fsign x * fsign y = 0 then NaN
      else if 0 < fsign x * fsign y then PosInf else NegInf)"

text \<open>\<^verbatim>\<open>a > b\<close> on floats: false whenever an operand is NaN.\<close>

fun fgt :: "pyfloat \<Rightarrow> pyfloat \<Rightarrow> bool" where
  "fgt NaN _ = False"
| "fgt _ NaN = False"
| "fgt (Fin a) (Fin b) = (b < a)"
| "fgt PosInf y = (y \<noteq> PosInf)"
| "fgt x NegInf = (x \<noteq> NegInf)"
| "fgt _ _ = False"

text \<open>The literal \<^verbatim>\<open>1.3\<close>: the binary64 value nearest to thirteen tenths.\<close>

definition float_1_3 :: rat where
  "float_1_3 = 5854679515581645 / 4503599627370496"

text \<open>
  \<^verbatim>\<open>math.ceil(x)\<close> and \<^verbatim>\<open>int(x)\<close> of a float: the ceiling, and truncation toward zero;
  both raise OverflowError on an infinity and ValueError on NaN.
\<close>

fun math_ceil :: "pyfloat \<Rightarrow> error + int" where
  "math_ceil (Fin a) = Inr \<lceil>a\<rceil>"
| "math_ceil NaN = Inl ValueError"
| "math_ceil _ = Inl OverflowError"

fun int_of_float :: "pyfloat \<Rightarrow> error + int" where
  "int_of_float (Fin a) = Inr (if 0 \<le> a then \<lfloor>a\<rfloor> else \<lceil>a\<rceil>)"
| "int_of_float NaN = Inl ValueError"
| "int_of_float _ = Inl OverflowError"

subsection \<open>Conversions\<close>

text \<open>
  How Python reads a string as a number (\<^verbatim>\<open>float(s)\<close>, \<^verbatim>\<open>int(s)\<close>: signs, exponents,
  underscores, every Unicode digit) and how it prints a float (\<^verbatim>\<open>repr\<close>, the shortest
  digits that read back) are behaviour of the language's library, not of this repository.
  The model takes the three functions as a parameter: \<open>None\<close> stands for ValueError.
  Every theorem about the engine holds for every value of the parameter.
\<close>

record builtins =
  float_of_str :: "ustring \<Rightarrow> pyfloat option"
  int_of_str :: "ustring \<Rightarrow> int option"
  repr_float :: "pyfloat \<Rightarrow> ustring"

text \<open>
  \<^verbatim>\<open>float(v)\<close>: a float as it is, a boolean as 0.0 or 1.0, an integer rounded to binary64
  (OverflowError when it is too large), a string as the library reads it, TypeError on
  \<^verbatim>\<open>None\<close>.
\<close>

fun py_float :: "builtins \<Rightarrow> pyval \<Rightarrow> error + pyfloat" where
  "py_float B PNone = Inl TypeError"
| "py_float B (PBool b) = Inr (Fin (if b then 1 else 0))"
| "py_float B (PInt i) =
     (case round64 (of_int i) of Fin a \<Rightarrow> Inr (Fin a) | _ \<Rightarrow> Inl OverflowError)"
| "py_float B (PFloat f) = Inr f"
| "py_float B (PStr s) =
     (case float_of_str B s of None \<Rightarrow> Inl ValueError | Some f \<Rightarrow> Inr f)"

text \<open>\<^verbatim>\<open>int(v)\<close>.\<close>

fun py_int :: "builtins \<Rightarrow> pyval \<Rightarrow> error + int" where
  "py_int B PNone = Inl TypeError"
| "py_int B (PBool b) = Inr (if b then 1 else 0)"
| "py_int B (PInt i) = Inr i"
| "py_int B (PFloat f) = int_of_float f"
| "py_int B (PStr s) =
     (case int_of_str B s of None \<Rightarrow> Inl ValueError | Some i \<Rightarrow> Inr i)"

text \<open>\<^verbatim>\<open>str(v)\<close>, which is also what an f-string does with \<^verbatim>\<open>{v}\<close>.\<close>

fun str_nat :: "nat \<Rightarrow> ustring" where
  "str_nat n = (if n < 10 then [48 + n] else str_nat (n div 10) @ [48 + n mod 10])"

declare str_nat.simps [simp del]

definition str_int :: "int \<Rightarrow> ustring" where
  "str_int i = (if i < 0 then 45 # str_nat (nat (- i)) else str_nat (nat i))"

fun py_str :: "builtins \<Rightarrow> pyval \<Rightarrow> ustring" where
  "py_str B PNone = ustr ''None''"
| "py_str B (PBool b) = (if b then ustr ''True'' else ustr ''False'')"
| "py_str B (PInt i) = str_int i"
| "py_str B (PFloat f) = repr_float B f"
| "py_str B (PStr s) = s"

subsection \<open>String methods\<close>

text \<open>
  \<^verbatim>\<open>str.isspace\<close> of one code point (the Unicode white space that \<^verbatim>\<open>strip\<close> removes),
  and \<^verbatim>\<open>str.strip()\<close>.
\<close>

definition py_isspace :: "nat \<Rightarrow> bool" where
  "py_isspace c \<longleftrightarrow>
     (9 \<le> c \<and> c \<le> 13) \<or> (28 \<le> c \<and> c \<le> 32) \<or> c = 0x85 \<or> c = 0xA0 \<or> c = 0x1680
     \<or> (0x2000 \<le> c \<and> c \<le> 0x200A) \<or> c = 0x2028 \<or> c = 0x2029 \<or> c = 0x202F
     \<or> c = 0x205F \<or> c = 0x3000"

definition py_strip :: "ustring \<Rightarrow> ustring" where
  "py_strip s = rev (dropWhile py_isspace (rev (dropWhile py_isspace s)))"

text \<open>
  \<^verbatim>\<open>str.lower()\<close> and \<^verbatim>\<open>str.upper()\<close>. The case mapping is modelled on the code points
  below 256 (ASCII and Latin-1, which hold every letter the source compares with): there
  \<^verbatim>\<open>lower\<close> maps \<open>A-Z\<close> and \<open>0xC0-0xDE\<close> (except the multiplication sign \<open>0xD7\<close>) 32
  places up, and \<^verbatim>\<open>upper\<close> maps \<open>a-z\<close> and \<open>0xE0-0xFE\<close> (except the division sign
  \<open>0xF7\<close>) 32 places down, the sharp s to \<open>SS\<close>, the micro sign to \<open>0x39C\<close> and
  y-diaeresis to \<open>0x178\<close>. Code points from 256 on are left as they are, which is not
  what Python does for cased letters of other scripts.
\<close>

definition lower_cp :: "nat \<Rightarrow> nat" where
  "lower_cp c = (if (65 \<le> c \<and> c \<le> 90) \<or> (0xC0 \<le> c \<and> c \<le> 0xDE \<and> c \<noteq> 0xD7)
                 then c + 32 else c)"

definition py_lower :: "ustring \<Rightarrow> ustring" where
  "py_lower s = map lower_cp s"

definition upper_cp :: "nat \<Rightarrow> ustring" where
  "upper_cp c = (if (97 \<le> c \<and> c \<le> 122) \<or> (0xE0 \<le> c \<and> c \<le> 0xFE \<and> c \<noteq> 0xF7)
                 then [c - 32]
                 else if c = 0xDF then [83, 83]
                 else if c = 0xB5 then [0x39C]
                 else if c = 0xFF then [0x178]
                 else [c])"

definition py_upper :: "ustring \<Rightarrow> ustring" where
  "py_upper s = concat (map upper_cp s)"

text \<open>\<^verbatim>\<open>v.upper()\<close> on an attribute value: only a string has the method.\<close>

fun upper_method :: "pyval \<Rightarrow> error + ustring" where
  "upper_method (PStr s) = Inr (py_upper s)"
| "upper_method _ = Inl AttributeError"

subsection \<open>Equality of values\<close>

text \<open>
  \<^verbatim>\<open>a == b\<close>: strings by their code points; booleans, integers and floats by their
  exact numeric value (\<^verbatim>\<open>True == 1 == 1.0\<close>), NaN equal to nothing; a string never equals
  a number, and \<^verbatim>\<open>None\<close> equals only \<^verbatim>\<open>None\<close>.
\<close>

fun num_of :: "pyval \<Rightarrow> pyfloat option" where
  "num_of (PBool b) = Some (Fin (if b then 1 else 0))"
| "num_of (PInt i) = Some (Fin (of_int i))"
| "num_of (PFloat f) = Some f"
| "num_of _ = None"

fun py_eq :: "pyval \<Rightarrow> pyval \<Rightarrow> bool" where
  "py_eq (PStr s) (PStr t) = (s = t)"
| "py_eq PNone PNone = True"
| "py_eq a b =
     (case (num_of a, num_of b) of
        (Some x, Some y) \<Rightarrow> x \<noteq> NaN \<and> x = y
      | _ \<Rightarrow> False)"

section \<open>BuildEngine: power and compatibility\<close>

text \<open>
  \<^verbatim>\<open>
  def estimated_power(self):
      total = 0.0
      for p in self.parts.values():
          tdp = p.attributes.get('tdp_w') or p.attributes.get('tdp') or 0
          try: total += float(tdp)
          except: pass

      baseline = 50
      total += baseline
      rec = int(math.ceil(total * 1.3))
      return int(total), rec
  \<close>
\<close>

definition tdp_of :: "part \<Rightarrow> pyval" where
  "tdp_of p = py_or (py_or (attr p (ustr ''tdp_w'')) (attr p (ustr ''tdp''))) (PInt 0)"

fun sum_tdp :: "builtins \<Rightarrow> pyfloat \<Rightarrow> part list \<Rightarrow> pyfloat" where
  "sum_tdp B tot [] = tot"
| "sum_tdp B tot (p # ps) =
     sum_tdp B (case py_float B (tdp_of p) of Inr f \<Rightarrow> fadd tot f | Inl _ \<Rightarrow> tot) ps"

definition estimated_power :: "builtins \<Rightarrow> selection \<Rightarrow> error + int \<times> int" where
  "estimated_power B parts =
     (let tot = sum_tdp B (Fin 0) (dict_values parts);
          tot = fadd tot (Fin 50)
      in case math_ceil (fmul tot (Fin float_1_3)) of
           Inl e \<Rightarrow> Inl e
         | Inr rec \<Rightarrow>
             (case int_of_float tot of
                Inl e \<Rightarrow> Inl e
              | Inr consumed \<Rightarrow> Inr (consumed, rec)))"

text \<open>
  The rule on the processor and the motherboard, with the BIOS note inside it:
  \<^verbatim>\<open>
  if cpu and mb:
      cpu_sock = cpu.attributes.get('soquete') or cpu.attributes.get('socket')
      mb_sock = mb.attributes.get('soquete') or mb.attributes.get('socket')
      if cpu_sock and mb_sock and cpu_sock != mb_sock:
          issues.append(f"Soquete incompativel: CPU({cpu_sock}) != Placa-mae({mb_sock})")
      reqb = cpu.attributes.get('required_bios') or cpu.attributes.get('bios_note')
      if reqb: issues.append(f"Aviso BIOS: {reqb}")
  \<close>
\<close>

definition socket_issue :: "builtins \<Rightarrow> pyval \<Rightarrow> pyval \<Rightarrow> ustring" where
  "socket_issue B cpu_sock mb_sock =
     ustr ''Soquete incompat'' @ [0xED] @ ustr ''vel: CPU('' @ py_str B cpu_sock
     @ ustr '') != Placa-m'' @ [0xE3] @ ustr ''e('' @ py_str B mb_sock @ ustr '')''"

definition bios_issue :: "builtins \<Rightarrow> pyval \<Rightarrow> ustring" where
  "bios_issue B reqb = ustr ''Aviso BIOS: '' @ py_str B reqb"

definition rule_cpu_mb :: "builtins \<Rightarrow> part option \<Rightarrow> part option \<Rightarrow> ustring list" where
  "rule_cpu_mb B cpu mb =
     (case (cpu, mb) of
        (Some c, Some m) \<Rightarrow>
          (let cpu_sock = py_or (attr c (ustr ''soquete'')) (attr c (ustr ''socket''));
               mb_sock = py_or (attr m (ustr ''soquete'')) (attr m (ustr ''socket''));
               reqb = py_or (attr c (ustr ''required_bios'')) (attr c (ustr ''bios_note''))
           in (if truthy cpu_sock \<and> truthy mb_sock \<and> \<not> py_eq cpu_sock mb_sock
               then [socket_issue B cpu_sock mb_sock] else [])
              @ (if truthy reqb then [bios_issue B reqb] else []))
      | _ \<Rightarrow> [])"

text \<open>
  \<^verbatim>\<open>
  if ram and mb:
      ram_t = ram.attributes.get('tipo') or ram.attributes.get('mem_type') or ram.attributes.get('type')
      mb_t = mb.attributes.get('mem_type') or mb.attributes.get('ram_type')
      if ram_t and mb_t and ram_t.upper() != mb_t.upper():
          issues.append(f"Tipo de RAM incompativel: {ram_t.upper()} != {mb_t.upper()}")
  \<close>
  No \<^verbatim>\<open>try\<close> surrounds the two calls of \<^verbatim>\<open>upper\<close>: the AttributeError of a value that
  is not a string leaves the function.
\<close>

definition ram_issue :: "ustring \<Rightarrow> ustring \<Rightarrow> ustring" where
  "ram_issue a b =
     ustr ''Tipo de RAM incompat'' @ [0xED] @ ustr ''vel: '' @ a @ ustr '' != '' @ b"

definition rule_ram_mb :: "part option \<Rightarrow> part option \<Rightarrow> error + ustring list" where
  "rule_ram_mb ram mb =
     (case (ram, mb) of
        (Some r, Some m) \<Rightarrow>
          (let ram_t = py_or (py_or (attr r (ustr ''tipo'')) (attr r (ustr ''mem_type'')))
                         (attr r (ustr ''type''));
               mb_t = py_or (attr m (ustr ''mem_type'')) (attr m (ustr ''ram_type''))
           in if truthy ram_t \<and> truthy mb_t
              then (case upper_method ram_t of
                      Inl e \<Rightarrow> Inl e
                    | Inr a \<Rightarrow>
                        (case upper_method mb_t of
                           Inl e \<Rightarrow> Inl e
                         | Inr b \<Rightarrow> Inr (if a \<noteq> b then [ram_issue a b] else [])))
              else Inr [])
      | _ \<Rightarrow> Inr [])"

text \<open>
  The two clearance rules share one shape, a numeric comparison inside \<^verbatim>\<open>try\<close>:
  \<^verbatim>\<open>
  if gpu and case:
      gl = gpu.attributes.get('comprimento_mm') or gpu.attributes.get('length_mm')
      cm = case.attributes.get('gpu_max_mm') or case.attributes.get('max_gpu_length_mm')
      try:
          if gl and cm and float(gl) > float(cm):
              issues.append(f"GPU muito longa: {gl}mm > gabinete {cm}mm")
      except: pass

  if cooler and case:
      ch = cooler.attributes.get('height_mm') or cooler.attributes.get('altura_mm')
      clearance = case.attributes.get('cooler_clearance_mm') or case.attributes.get('max_cooler_height_mm')
      try:
          if ch and clearance and float(ch) > float(clearance):
              issues.append(f"Cooler muito alto: {ch}mm > clearance {clearance}mm")
      except: pass
  \<close>
\<close>

definition exceeds :: "builtins \<Rightarrow> pyval \<Rightarrow> pyval \<Rightarrow> bool" where
  "exceeds B x y =
     (truthy x \<and> truthy y \<and>
      (case (py_float B x, py_float B y) of (Inr a, Inr b) \<Rightarrow> fgt a b | _ \<Rightarrow> False))"

definition gpu_issue :: "builtins \<Rightarrow> pyval \<Rightarrow> pyval \<Rightarrow> ustring" where
  "gpu_issue B gl cm =
     ustr ''GPU muito longa: '' @ py_str B gl @ ustr ''mm > gabinete '' @ py_str B cm
     @ ustr ''mm''"

definition rule_gpu_case :: "builtins \<Rightarrow> part option \<Rightarrow> part option \<Rightarrow> ustring list" where
  "rule_gpu_case B gpu case_p =
     (case (gpu, case_p) of
        (Some g, Some c) \<Rightarrow>
          (let gl = py_or (attr g (ustr ''comprimento_mm'')) (attr g (ustr ''length_mm''));
               cm = py_or (attr c (ustr ''gpu_max_mm'')) (attr c (ustr ''max_gpu_length_mm''))
           in if exceeds B gl cm then [gpu_issue B gl cm] else [])
      | _ \<Rightarrow> [])"

definition cooler_issue :: "builtins \<Rightarrow> pyval \<Rightarrow> pyval \<Rightarrow> ustring" where
  "cooler_issue B ch clearance =
     ustr ''Cooler muito alto: '' @ py_str B ch @ ustr ''mm > clearance ''
     @ py_str B clearance @ ustr ''mm''"

definition rule_cooler_case :: "builtins \<Rightarrow> part option \<Rightarrow> part option \<Rightarrow> ustring list" where
  "rule_cooler_case B cooler case_p =
     (case (cooler, case_p) of
        (Some k, Some c) \<Rightarrow>
          (let ch = py_or (attr k (ustr ''height_mm'')) (attr k (ustr ''altura_mm''));
               clearance = py_or (attr c (ustr ''cooler_clearance_mm''))
                             (attr c (ustr ''max_cooler_height_mm''))
           in if exceeds B ch clearance then [cooler_issue B ch clearance] else [])
      | _ \<Rightarrow> [])"

text \<open>
  \<^verbatim>\<open>
  if psu:
      watt = psu.attributes.get('watt') or psu.attributes.get('power_w')
      _, rec = self.estimated_power()
      try:
          if watt and int(watt) < rec:
              issues.append(f"Fonte pode ser insuficiente: {watt}W < recomendado {rec}W")
      except: pass
  \<close>
  The call of \<^verbatim>\<open>estimated_power\<close> stands before the \<^verbatim>\<open>try\<close>: what it raises leaves
  the function.
\<close>

definition psu_prefix :: ustring where
  "psu_prefix = ustr ''Fonte pode ser insuficiente: ''"

definition psu_issue :: "builtins \<Rightarrow> pyval \<Rightarrow> int \<Rightarrow> ustring" where
  "psu_issue B watt rec =
     psu_prefix @ py_str B watt @ ustr ''W < recomendado '' @ str_int rec @ ustr ''W''"

definition psu_watt :: "part \<Rightarrow> pyval" where
  "psu_watt psu = py_or (attr psu (ustr ''watt'')) (attr psu (ustr ''power_w''))"

definition rule_psu :: "builtins \<Rightarrow> selection \<Rightarrow> part option \<Rightarrow> error + ustring list" where
  "rule_psu B parts psu =
     (case psu of
        Some u \<Rightarrow>
          (let watt = psu_watt u
           in case estimated_power B parts of
                Inl e \<Rightarrow> Inl e
              | Inr (consumed, rec) \<Rightarrow>
                  Inr (if truthy watt \<and>
                          (case py_int B watt of Inr w \<Rightarrow> w < rec | Inl _ \<Rightarrow> False)
                       then [psu_issue B watt rec] else []))
      | None \<Rightarrow> Inr [])"

text \<open>
  \<^verbatim>\<open>
  def compatibility_issues(self):
      issues = []
      cpu = self.parts.get('CPU')
      mb = self.parts.get('Placa-mae')
      ram = self.parts.get('RAM')
      gpu = self.parts.get('GPU')
      case = self.parts.get('Gabinete')
      psu = self.parts.get('Fonte')
      cooler = self.parts.get('Cooler')
      ... the five blocks above, in this order ...
      return issues
  \<close>
\<close>

definition compatibility_issues :: "builtins \<Rightarrow> selection \<Rightarrow> error + ustring list" where
  "compatibility_issues B parts =
     (let cpu = dict_get parts (ustr ''CPU'');
          mb = dict_get parts s_placa_mae;
          ram = dict_get parts (ustr ''RAM'');
          gpu = dict_get parts (ustr ''GPU'');
          case_p = dict_get parts (ustr ''Gabinete'');
          psu = dict_get parts (ustr ''Fonte'');
          cooler = dict_get parts (ustr ''Cooler'')
      in case rule_ram_mb ram mb of
           Inl e \<Rightarrow> Inl e
         | Inr ram_issues \<Rightarrow>
             (case rule_psu B parts psu of
                Inl e \<Rightarrow> Inl e
              | Inr psu_issues \<Rightarrow>
                  Inr (rule_cpu_mb B cpu mb @ ram_issues @ rule_gpu_case B gpu case_p
                       @ rule_cooler_case B cooler case_p @ psu_issues)))"

text \<open>
  The reading of \<^verbatim>\<open>estimated_power\<close> in the specification: the alias probe of one slot
  (\<^verbatim>\<open>tdp_w\<close>, else \<^verbatim>\<open>tdp\<close>), the values that count (present, truthy and coercible
  to a number), their sum from 0.0 in the order of the slots, and the baseline of 50.
\<close>

definition probe_tdp :: "part \<Rightarrow> pyval" where
  "probe_tdp p = py_or (attr p (ustr ''tdp_w'')) (attr p (ustr ''tdp''))"

definition has_tdp :: "part \<Rightarrow> bool" where
  "has_tdp p \<longleftrightarrow> attributes p (ustr ''tdp_w'') \<noteq> None \<or> attributes p (ustr ''tdp'') \<noteq> None"

definition tdp_values :: "builtins \<Rightarrow> part list \<Rightarrow> pyfloat list" where
  "tdp_values B ps =
     concat (map (\<lambda>p. if truthy (probe_tdp p)
                       then (case py_float B (probe_tdp p) of Inr f \<Rightarrow> [f] | Inl _ \<Rightarrow> [])
                       else []) ps)"

definition spec_consumed :: "builtins \<Rightarrow> selection \<Rightarrow> pyfloat" where
  "spec_consumed B parts = fadd (foldl fadd (Fin 0) (tdp_values B (dict_values parts))) (Fin 50)"

subsection \<open>A concrete value of the library parameter\<close>

text \<open>
  \<open>float_of_decimal\<close> reads a string of ASCII digits with at most one decimal point and
  at least one digit (\<^verbatim>\<open>"1234.56"\<close>, \<^verbatim>\<open>"79."\<close>, \<^verbatim>\<open>".5"\<close>) as CPython's \<^verbatim>\<open>float\<close> does,
  correctly rounded; \<open>int_of_digits\<close> reads a non-empty string of ASCII digits.
  \<open>ascii_builtins\<close> is the value of the parameter used to evaluate the model on
  concrete inputs. It rejects every string outside these two forms (a sign, an exponent,
  white space, which CPython accepts), and it prints integer-valued floats below ten to
  the sixteenth as CPython does (\<^verbatim>\<open>65.0\<close>) and gives no digits for the other finite
  floats. The inputs evaluated in this development stay inside that range.
\<close>

definition is_digit :: "nat \<Rightarrow> bool" where
  "is_digit c \<longleftrightarrow> 48 \<le> c \<and> c \<le> 57"

fun digits_value :: "nat \<Rightarrow> ustring \<Rightarrow> nat" where
  "digits_value acc [] = acc"
| "digits_value acc (c # cs) = digits_value (10 * acc + (c - 48)) cs"

definition int_of_digits :: "ustring \<Rightarrow> int option" where
  "int_of_digits s =
     (if s \<noteq> [] \<and> list_all is_digit s then Some (int (digits_value 0 s)) else None)"

definition float_of_decimal :: "ustring \<Rightarrow> pyfloat option" where
  "float_of_decimal s =
     (let ip = takeWhile is_digit s; rest = dropWhile is_digit s
      in case rest of
           [] \<Rightarrow> if ip = [] then None else Some (round64 (of_nat (digits_value 0 ip)))
         | c # fp \<Rightarrow>
             if c = 46 \<and> list_all is_digit fp \<and> (ip \<noteq> [] \<or> fp \<noteq> [])
             then Some (round64 (of_nat (digits_value 0 (ip @ fp)) / 10 ^ length fp))
             else None)"

definition ascii_repr_float :: "pyfloat \<Rightarrow> ustring" where
  "ascii_repr_float f =
     (case f of
        Fin a \<Rightarrow> if a = of_int \<lfloor>a\<rfloor> \<and> \<bar>a\<bar> < 10 ^ 16
                 then str_int \<lfloor>a\<rfloor> @ ustr ''.0'' else []
      | PosInf \<Rightarrow> ustr ''inf''
      | NegInf \<Rightarrow> ustr ''-inf''
      | NaN \<Rightarrow> ustr ''nan'')"

definition ascii_builtins :: builtins where
  "ascii_builtins = \<lparr>float_of_str = float_of_decimal, int_of_str = int_of_digits,
     repr_float = ascii_repr_float\<rparr>"

subsection \<open>Example selections\<close>

definition mk_part :: "string \<Rightarrow> string \<Rightarrow> (ustring \<rightharpoonup> pyval) \<Rightarrow> part" where
  "mk_part i c attrs = \<lparr>part_id = ustr i, category = ustr c, name = ustr i,
     price = Fin 0, attributes = attrs\<rparr>"

text \<open>A processor of 65 W, a graphics card of 170 W and memory without a TDP.\<close>

definition sel_65_170 :: selection where
  "sel_65_170 =
     [(ustr ''CPU'', mk_part ''c1'' ''CPU'' [ustr ''tdp_w'' \<mapsto> PInt 65]),
      (ustr ''RAM'', mk_part ''r1'' ''RAM'' Map.empty),
      (ustr ''GPU'', mk_part ''g1'' ''GPU'' [ustr ''tdp'' \<mapsto> PInt 170])]"

text \<open>A single part whose TDP attribute is the float \<^verbatim>\<open>-50.5\<close>.\<close>

definition sel_negative_tdp :: selection where
  "sel_negative_tdp =
     [(ustr ''CPU'', mk_part ''c1'' ''CPU'' [ustr ''tdp'' \<mapsto> PFloat (Fin (- 101 / 2))])]"

text \<open>
  An issue is a PSU-insufficiency issue when it begins with the fixed text of that
  message. The reading of the wattage is \<open>psu_watt\<close> above.
\<close>

fun starts_with :: "'a list \<Rightarrow> 'a list \<Rightarrow> bool" where
  "starts_with [] s = True"
| "starts_with (x # xs) [] = False"
| "starts_with (x # xs) (y # ys) = (x = y \<and> starts_with xs ys)"

definition is_psu_issue :: "ustring \<Rightarrow> bool" where
  "is_psu_issue s = starts_with psu_prefix s"

text \<open>The BIOS attribute of a processor, as the rule probes it.\<close>

definition bios_note :: "part \<Rightarrow> pyval" where
  "bios_note c = py_or (attr c (ustr ''required_bios'')) (attr c (ustr ''bios_note''))"

text \<open>A power supply of 64 W alone; one whose only wattage attribute is zero.\<close>

definition psu_64 :: part where
  "psu_64 = mk_part ''p1'' ''Fonte'' [ustr ''watt'' \<mapsto> PInt 64]"

definition sel_psu_64 :: selection where
  "sel_psu_64 = [(ustr ''Fonte'', psu_64)]"

definition psu_zero :: part where
  "psu_zero = mk_part ''p0'' ''Fonte'' [ustr ''power_w'' \<mapsto> PInt 0]"

definition sel_psu_zero :: selection where
  "sel_psu_zero = [(ustr ''Fonte'', psu_zero)]"

text \<open>
  A processor with a BIOS requirement, alone and with a motherboard of another socket.
\<close>

definition cpu_bios :: part where
  "cpu_bios = mk_part ''c2'' ''CPU''
     [ustr ''socket'' \<mapsto> PStr (ustr ''AM4''), ustr ''required_bios'' \<mapsto> PStr (ustr ''F20'')]"

definition mb_lga :: part where
  "mb_lga = mk_part ''m2'' ''Motherboard'' [ustr ''socket'' \<mapsto> PStr (ustr ''LGA1700'')]"

definition sel_cpu_bios :: selection where
  "sel_cpu_bios = [(ustr ''CPU'', cpu_bios)]"

definition sel_cpu_bios_mb :: selection where
  "sel_cpu_bios_mb = [(ustr ''CPU'', cpu_bios), (s_placa_mae, mb_lga)]"

text \<open>
  Memory whose type attribute is the integer 4 (what the CSV import makes of a cell
  \<^verbatim>\<open>4\<close>), with a motherboard whose memory type is the string \<^verbatim>\<open>DDR4\<close>.
\<close>

definition ram_int_type :: part where
  "ram_int_type = mk_part ''r4'' ''RAM'' [ustr ''tipo'' \<mapsto> PInt 4]"

definition mb_ddr4 :: part where
  "mb_ddr4 = mk_part ''m4'' ''Motherboard'' [ustr ''mem_type'' \<mapsto> PStr (ustr ''DDR4'')]"

definition sel_ram_int :: selection where
  "sel_ram_int = [(ustr ''RAM'', ram_int_type), (s_placa_mae, mb_ddr4)]"

section \<open>BuildEngine: the assembly guide\<close>

text \<open>
  The lines of the guide, in the order of the source (lines 386 to 428 of
  \<^verbatim>\<open>app.py\<close>), with their accented letters as code points.
\<close>

definition step_tools :: ustring where
  "step_tools = ustr ''Ferramentas: chave Phillips #2, pasta t'' @ [0xE9]
     @ ustr ''rmica, pulseira antiest'' @ [0xE1] @ ustr ''tica (opcional).''"

definition step_prepare_mb :: ustring where
  "step_prepare_mb = ustr ''1) Prepara'' @ [0xE7, 0xE3] @ ustr ''o da Placa-m'' @ [0xE3]
     @ ustr ''e: Coloque a placa em cima da caixa antiest'' @ [0xE1] @ ustr ''tica.''"

definition step_cpu :: ustring where
  "step_cpu = ustr ''2) Instalar CPU na placa-m'' @ [0xE3] @ ustr ''e: Alinhar o tri'' @ [0xE2]
     @ ustr ''ngulo/seta, levantar a alavanca e fechar com cuidado.''"

definition step_cooler :: ustring where
  "step_cooler = ustr ''3) Instalar cooler/AIO e aplicar pasta t'' @ [0xE9]
     @ ustr ''rmica se necess'' @ [0xE1] @ ustr ''rio (ou se n'' @ [0xE3] @ ustr ''o pr'' @ [0xE9]
     @ ustr ''-aplicada).''"

definition step_ram :: ustring where
  "step_ram = ustr ''4) Inserir m'' @ [0xF3]
     @ ustr ''dulos de RAM nos slots corretos (consultar manual da placa-m'' @ [0xE3]
     @ ustr ''e para dual channel).''"

definition step_m2 :: ustring where
  "step_m2 = ustr ''5) Instalar SSD M.2 nos slots da placa-m'' @ [0xE3]
     @ ustr ''e e parafusar com cuidado.''"

definition step_cpu_generic :: ustring where
  "step_cpu_generic =
     ustr ''1) Instalar CPU e Cooler (se for o caso) antes de encaixar a Placa-m'' @ [0xE3]
     @ ustr ''e.''"

definition step_ram_generic :: ustring where
  "step_ram_generic = ustr ''2) Inserir RAM nos slots da Placa-m'' @ [0xE3] @ ustr ''e.''"

definition step_psu :: ustring where
  "step_psu =
     ustr ''6) Instalar Fonte no compartimento e rotear os cabos principais (CPU/24pinos) por tr''
     @ [0xE1] @ ustr ''s da placa-m'' @ [0xE3] @ ustr ''e.''"

definition step_mount_mb :: ustring where
  "step_mount_mb = ustr ''7) Instalar Placa-m'' @ [0xE3] @ ustr ''e nos '' @ [0x27]
     @ ustr ''standoffs'' @ [0x27] @ ustr '' (espa'' @ [0xE7]
     @ ustr ''adores) do gabinete e parafusar com cuidado.''"

definition step_sata :: ustring where
  "step_sata =
     ustr ''8) Instalar drive SATA (SSD/HDD) nas baias e conectar cabos de dados (SATA) e energia.''"

definition step_gpu :: ustring where
  "step_gpu =
     ustr ''9) Instalar GPU no slot PCIe x16 (geralmente o de cima) e conectar cabos PCIe de energia (se necess''
     @ [0xE1] @ ustr ''rio).''"

definition step_front_panel :: ustring where
  "step_front_panel = ustr ''10) Conectar cabos frontais (Power/Reset, USB, '' @ [0xC1]
     @ ustr ''udio) e organizar todos os cabos com abra'' @ [0xE7] @ ustr ''adeiras.''"

definition step_peripherals :: ustring where
  "step_peripherals = ustr ''11) Conectar perif'' @ [0xE9]
     @ ustr ''ricos (Monitor, Teclado, Mouse) e ligar o sistema para o POST inicial.''"

definition warning_header :: ustring where
  "warning_header = [0x26A0] @ ustr '' Aten'' @ [0xE7, 0xE3]
     @ ustr ''o: Foram detectados problemas de compatibilidade '' @ [0x2014]
     @ ustr '' reveja antes de ligar:''"

text \<open>
  \<^verbatim>\<open>
  def assembly_steps(self):
      steps = []
      steps.append("Ferramentas: ...")
      storage = self.parts.get('Armazenamento')
      if self.parts.get('Placa-mae'):
          steps.append("1) Preparacao da Placa-mae: ...")
          if self.parts.get('CPU'): steps.append("2) Instalar CPU ...")
          if self.parts.get('Cooler'): steps.append("3) Instalar cooler/AIO ...")
          if self.parts.get('RAM'): steps.append("4) Inserir modulos de RAM ...")
          if storage and str(storage.attributes.get('form_factor', '')).lower() == 'm.2':
              steps.append("5) Instalar SSD M.2 ...")
      else:
           steps.append("1) Instalar CPU e Cooler ...")
           if self.parts.get('RAM'): steps.append("2) Inserir RAM ...")
      if self.parts.get('Fonte'): steps.append("6) Instalar Fonte ...")
      if self.parts.get('Placa-mae'): steps.append("7) Instalar Placa-mae ...")
      if storage:
          ff = str(storage.attributes.get('form_factor', '')).lower()
          if ff == '2.5' or ff == '3.5' or ff == 'sata':
              steps.append("8) Instalar drive SATA ...")
      if self.parts.get('GPU'): steps.append("9) Instalar GPU ...")
      steps.append("10) Conectar cabos frontais ...")
      steps.append("11) Conectar perifericos ...")
      issues = self.compatibility_issues()
      if issues:
          steps.insert(0, "(warning sign) Atencao: ...")
          steps[1:1] = [f" - {it}" for it in issues]
      return steps
  \<close>
\<close>

definition form_factor :: "builtins \<Rightarrow> part \<Rightarrow> ustring" where
  "form_factor B storage =
     py_lower (py_str B (attr_default storage (ustr ''form_factor'') (PStr [])))"

definition occupied :: "selection \<Rightarrow> ustring \<Rightarrow> bool" where
  "occupied parts k \<longleftrightarrow> dict_get parts k \<noteq> None"

definition plain_steps :: "builtins \<Rightarrow> selection \<Rightarrow> ustring list" where
  "plain_steps B parts =
     (let storage = dict_get parts (ustr ''Armazenamento'')
      in [step_tools]
         @ (if occupied parts s_placa_mae
            then [step_prepare_mb]
                 @ (if occupied parts (ustr ''CPU'') then [step_cpu] else [])
                 @ (if occupied parts (ustr ''Cooler'') then [step_cooler] else [])
                 @ (if occupied parts (ustr ''RAM'') then [step_ram] else [])
                 @ (case storage of
                      Some s \<Rightarrow> if form_factor B s = ustr ''m.2'' then [step_m2] else []
                    | None \<Rightarrow> [])
            else [step_cpu_generic]
                 @ (if occupied parts (ustr ''RAM'') then [step_ram_generic] else []))
         @ (if occupied parts (ustr ''Fonte'') then [step_psu] else [])
         @ (if occupied parts s_placa_mae then [step_mount_mb] else [])
         @ (case storage of
              Some s \<Rightarrow>
                (let ff = form_factor B s
                 in if ff = ustr ''2.5'' \<or> ff = ustr ''3.5'' \<or> ff = ustr ''sata''
                    then [step_sata] else [])
            | None \<Rightarrow> [])
         @ (if occupied parts (ustr ''GPU'') then [step_gpu] else [])
         @ [step_front_panel, step_peripherals])"

definition assembly_steps :: "builtins \<Rightarrow> selection \<Rightarrow> error + ustring list" where
  "assembly_steps B parts =
     (let steps = plain_steps B parts
      in case compatibility_issues B parts of
           Inl e \<Rightarrow> Inl e
         | Inr issues \<Rightarrow>
             Inr (if issues \<noteq> []
                  then [warning_header] @ map (\<lambda>it. ustr '' - '' @ it) issues @ steps
                  else steps))"

text \<open>A full build of six parts that carry no attributes.\<close>

definition sel_six :: selection where
  "sel_six =
     [(s_placa_mae, mk_part ''m1'' ''Motherboard'' Map.empty),
      (ustr ''CPU'', mk_part ''c1'' ''CPU'' Map.empty),
      (ustr ''RAM'', mk_part ''r1'' ''RAM'' Map.empty),
      (ustr ''Fonte'', mk_part ''p1'' ''PSU'' Map.empty),
      (ustr ''Gabinete'', mk_part ''k1'' ''Case'' Map.empty),
      (ustr ''GPU'', mk_part ''g1'' ''GPU'' Map.empty)]"

section \<open>Catalog\<close>

text \<open>\<^verbatim>\<open>sub in s\<close> on strings: \<open>sub\<close> occurs in \<open>s\<close> as a contiguous piece.\<close>

fun contains :: "'a list \<Rightarrow> 'a list \<Rightarrow> bool" where
  "contains sub [] = (sub = [])"
| "contains sub (c # s) = (starts_with sub (c # s) \<or> contains sub s)"

text \<open>
  \<^verbatim>\<open>
  def _normalize_category(self, cat: str) -> str:
      cat_lower = cat.strip().lower()
      if 'placa-mae' in cat_lower or 'motherboard' in cat_lower or 'mainboard' in cat_lower:
          return 'Placa-mae'
      if cat_lower in ('gpu', 'placa de video', 'video card'):
          return 'GPU'
      if cat_lower in ('cpu', 'processador'):
          return 'CPU'
      if cat_lower in ('ram', 'memoria'):
          return 'RAM'
      if cat_lower in ('fonte', 'psu', 'power supply'):
          return 'Fonte'
      if cat_lower in ('gabinete', 'case'):
          return 'Gabinete'
      if cat_lower in ('ssd', 'armazenamento', 'hdd', 'storage'):
          return 'Armazenamento'
      if cat_lower in ('cooler', 'aio', 'resfriamento'):
          return 'Cooler'
      return cat.strip()
  \<close>
  (with the accents of the source: \<open>placa-m\<close>\<open>0xE3\<close>\<open>e\<close>, \<open>v\<close>\<open>0xED\<close>\<open>deo\<close>,
  \<open>mem\<close>\<open>0xF3\<close>\<open>ria\<close>). The tests are kept as tables: the three pieces looked for
  inside the label, and for each canonical name the labels it is given to.
\<close>

definition board_terms :: "ustring list" where
  "board_terms = [ustr ''placa-m'' @ [0xE3] @ ustr ''e'', ustr ''motherboard'', ustr ''mainboard'']"

definition exact_labels :: "(ustring \<times> ustring list) list" where
  "exact_labels =
     [(ustr ''GPU'', [ustr ''gpu'', ustr ''placa de v'' @ [0xED] @ ustr ''deo'', ustr ''video card'']),
      (ustr ''CPU'', [ustr ''cpu'', ustr ''processador'']),
      (ustr ''RAM'', [ustr ''ram'', ustr ''mem'' @ [0xF3] @ ustr ''ria'']),
      (ustr ''Fonte'', [ustr ''fonte'', ustr ''psu'', ustr ''power supply'']),
      (ustr ''Gabinete'', [ustr ''gabinete'', ustr ''case'']),
      (ustr ''Armazenamento'',
         [ustr ''ssd'', ustr ''armazenamento'', ustr ''hdd'', ustr ''storage'']),
      (ustr ''Cooler'', [ustr ''cooler'', ustr ''aio'', ustr ''resfriamento''])]"

text \<open>The \<^verbatim>\<open>if\<close> chain over the exact labels: the first table row that lists the label.\<close>

fun first_match :: "ustring \<Rightarrow> (ustring \<times> ustring list) list \<Rightarrow> ustring option" where
  "first_match l [] = None"
| "first_match l ((canon, labels) # rows) =
     (if l \<in> set labels then Some canon else first_match l rows)"

definition canonical_of :: "ustring \<Rightarrow> ustring option" where
  "canonical_of cat_lower =
     (if list_ex (\<lambda>t. contains t cat_lower) board_terms then Some s_placa_mae
      else first_match cat_lower exact_labels)"

definition normalize_category :: "ustring \<Rightarrow> ustring" where
  "normalize_category cat =
     (case canonical_of (py_lower (py_strip cat)) of
        Some canon \<Rightarrow> canon
      | None \<Rightarrow> py_strip cat)"

text \<open>
  The canonical names the function returns, and every label the source lists, each with
  the canonical name of its branch.
\<close>

definition canonical_names :: "ustring list" where
  "canonical_names = s_placa_mae # map fst exact_labels"

definition listed_labels :: "(ustring \<times> ustring) list" where
  "listed_labels =
     map (\<lambda>t. (t, s_placa_mae)) board_terms
     @ concat (map (\<lambda>(canon, labels). map (\<lambda>l. (l, canon)) labels) exact_labels)"

text \<open>
  \<^verbatim>\<open>
  class Catalog:
      def __init__(self):
          self.by_cat: Dict[str,List[Part]] = {}
          self.by_id: Dict[str,Part] = {}
      def add_part(self, p: Part):
          norm_cat = self._normalize_category(p.category)
          p.category = norm_cat
          self.by_cat.setdefault(norm_cat, []).append(p)
          self.by_id[p.id] = p
      def parts_in(self, c): return self.by_cat.get(c, [])
      def find(self, pid): return self.by_id.get(pid)
  \<close>
  The part is stored with its category rewritten. Parts are held here by value; the
  source holds references and rewrites the category of the caller's object, which changes
  nothing for a part added a second time because normalisation is idempotent.
\<close>

record catalog =
  by_cat :: "ustring \<rightharpoonup> part list"
  by_id :: "ustring \<rightharpoonup> part"

definition Catalog_init :: catalog where
  "Catalog_init = \<lparr>by_cat = Map.empty, by_id = Map.empty\<rparr>"

definition parts_in :: "catalog \<Rightarrow> ustring \<Rightarrow> part list" where
  "parts_in cat c = (case by_cat cat c of None \<Rightarrow> [] | Some ps \<Rightarrow> ps)"

definition find_part :: "catalog \<Rightarrow> ustring \<Rightarrow> part option" where
  "find_part cat pid = by_id cat pid"

definition add_part :: "part \<Rightarrow> catalog \<Rightarrow> catalog" where
  "add_part p cat =
     (let norm_cat = normalize_category (category p);
          p' = p\<lparr>category := norm_cat\<rparr>
      in \<lparr>by_cat = (by_cat cat)(norm_cat \<mapsto> parts_in cat norm_cat @ [p']),
          by_id = (by_id cat)(part_id p' \<mapsto> p')\<rparr>)"

text \<open>A sequence of \<^verbatim>\<open>add_part\<close> calls, first to last.\<close>

fun add_all :: "part list \<Rightarrow> catalog \<Rightarrow> catalog" where
  "add_all [] cat = cat"
| "add_all (p # ps) cat = add_all ps (add_part p cat)"

text \<open>Two processors filed under the same id, and one memory module.\<close>

definition part_x_old :: part where
  "part_x_old = \<lparr>part_id = ustr ''x'', category = ustr ''cpu'', name = ustr ''old'',
     price = Fin 100, attributes = Map.empty\<rparr>"

definition part_x_new :: part where
  "part_x_new = \<lparr>part_id = ustr ''x'', category = ustr ''Processador'', name = ustr ''new'',
     price = Fin 200, attributes = Map.empty\<rparr>"

definition part_y :: part where
  "part_y = \<lparr>part_id = ustr ''y'', category = ustr '' ram '', name = ustr ''mem'',
     price = Fin 50, attributes = Map.empty\<rparr>"

text \<open>
  The relation between the two indexes that every sequence of additions keeps: a part
  found by id carries that id and stands in the list of its category; a part in the list
  of a category carries that category, the category is a normalised name, and the
  part's id is indexed.
\<close>

definition cat_inv :: "catalog \<Rightarrow> bool" where
  "cat_inv cat \<longleftrightarrow>
     (\<forall>i p. find_part cat i = Some p \<longrightarrow> part_id p = i \<and> p \<in> set (parts_in cat (category p)))
   \<and> (\<forall>c p. p \<in> set (parts_in cat c) \<longrightarrow>
          category p = c \<and> normalize_category c = c \<and> find_part cat (part_id p) \<noteq> None)"

(*DEFS-END*)

section \<open>Properties of the selection\<close>

lemma dict_get_set: "dict_get (dict_set k v d) k' = (if k' = k then Some v else dict_get d k')"
  by (induction d) (auto simp: dict_get_def)

lemma keys_dict_set: "fst ` set (dict_set k v d) = insert k (fst ` set d)"
  by (induction k v d rule: dict_set.induct) (simp_all add: insert_commute)

lemma distinct_dict_set: "distinct (map fst d) \<Longrightarrow> distinct (map fst (dict_set k v d))"
  by (induction k v d rule: dict_set.induct) (auto simp: keys_dict_set)

lemma keys_dict_del: "fst ` set (dict_del k d) \<subseteq> fst ` set d"
  by (induction k d rule: dict_del.induct) (simp_all add: subset_insertI2)

lemma distinct_dict_del: "distinct (map fst d) \<Longrightarrow> distinct (map fst (dict_del k d))"
proof (induction k d rule: dict_del.induct)
  case (1 k)
  then show ?case by simp
next
  case (2 k k' v' d)
  have "k' \<notin> fst ` set (dict_del k d)"
    using "2.prems" keys_dict_del [of k d] by auto
  with 2 show ?case by simp
qed

lemma distinct_run_ops: "distinct (map fst parts) \<Longrightarrow> distinct (map fst (run_ops ops parts))"
proof (induction ops arbitrary: parts)
  case Nil
  then show ?case by simp
next
  case (Cons a ops)
  show ?case
  proof (cases a)
    case (Select p)
    with Cons show ?thesis
      by (simp add: BuildEngine_add_def distinct_dict_set)
  next
    case (Deselect c)
    with Cons show ?thesis
      by (simp add: BuildEngine_remove_def distinct_dict_del)
  qed
qed

lemma occupants_distinct:
  "distinct (map fst d) \<Longrightarrow> occupants d k = (case dict_get d k of None \<Rightarrow> [] | Some v \<Rightarrow> [v])"
proof (induction d)
  case Nil
  then show ?case by (simp add: occupants_def dict_get_def)
next
  case (Cons e d)
  obtain k' v' where e: "e = (k', v')" by (cases e)
  show ?case
  proof (cases "k' = k")
    case True
    with Cons.prems e have "k \<notin> fst ` set d" by auto
    then have "filter (\<lambda>e. fst e = k) d = []"
      by (auto simp: filter_empty_conv)
    with True e show ?thesis by (simp add: occupants_def dict_get_def)
  next
    case False
    with Cons e show ?thesis by (simp add: occupants_def dict_get_def)
  qed
qed

lemma length_occupants_le: "distinct (map fst d) \<Longrightarrow> length (occupants d k) \<le> 1"
  by (simp add: occupants_distinct split: option.split)

lemma distinct_reachable: "distinct (map fst (run_ops ops BuildEngine_init))"
proof -
  have "distinct (map fst BuildEngine_init)"
    by (simp add: BuildEngine_init_def)
  then show ?thesis by (rule distinct_run_ops)
qed

lemma occupants_add_add:
  assumes "distinct (map fst s)" and "slot_of p1 = slot_of p2"
  shows "occupants (BuildEngine_add p2 (BuildEngine_add p1 s)) (slot_of p2) = [p2]"
proof -
  have d: "distinct (map fst (BuildEngine_add p2 (BuildEngine_add p1 s)))"
    unfolding BuildEngine_add_def using assms(1) by (intro distinct_dict_set)
  have "dict_get (BuildEngine_add p2 (BuildEngine_add p1 s)) (slot_of p2) = Some p2"
    unfolding BuildEngine_add_def by (simp add: dict_get_set)
  with d show ?thesis
    by (simp only: occupants_distinct option.case)
qed

text \<open>
  C5. From any state an engine reaches, selecting two parts that go to the same slot, one
  after the other, leaves in that slot exactly one occupant, the second part; and after
  any sequence of select and deselect operations no slot holds more than one part.
\<close>

theorem select_replaces_occupant:
  assumes "slot_of p1 = slot_of p2"
  shows "occupants (BuildEngine_add p2 (BuildEngine_add p1 (run_ops ops BuildEngine_init)))
           (slot_of p2) = [p2]
       \<and> (\<forall>ops' c. length (occupants (run_ops ops' BuildEngine_init) c) \<le> 1)"
proof (intro conjI allI)
  show "occupants (BuildEngine_add p2 (BuildEngine_add p1 (run_ops ops BuildEngine_init)))
           (slot_of p2) = [p2]"
    using distinct_reachable assms by (rule occupants_add_add)
next
  fix ops' c
  show "length (occupants (run_ops ops' BuildEngine_init) c) \<le> 1"
    using distinct_reachable by (rule length_occupants_le)
qed

lemma slot_of_demo_cpu_a: "slot_of demo_cpu_a = ustr ''CPU''"
  by (simp add: slot_of_def demo_cpu_a_def cat_map_def dict_get_def ustr_def s_placa_mae_def)

lemma slot_of_demo_cpu_b: "slot_of demo_cpu_b = ustr ''CPU''"
  by (simp add: slot_of_def demo_cpu_b_def cat_map_def dict_get_def ustr_def s_placa_mae_def)

theorem select_replaces_occupant_witness:
  "slot_of demo_cpu_a = slot_of demo_cpu_b
   \<and> occupants (BuildEngine_add demo_cpu_b (BuildEngine_add demo_cpu_a
         (run_ops [Select demo_cpu_b, Deselect (ustr ''CPU'')] BuildEngine_init)))
         (slot_of demo_cpu_b) = [demo_cpu_b]
   \<and> (\<forall>ops' c. length (occupants (run_ops ops' BuildEngine_init) c) \<le> 1)"
proof -
  have h: "slot_of demo_cpu_a = slot_of demo_cpu_b"
    by (simp only: slot_of_demo_cpu_a slot_of_demo_cpu_b)
  from h select_replaces_occupant [OF h, of "[Select demo_cpu_b, Deselect (ustr ''CPU'')]"]
  show ?thesis by (rule conjI)
qed

section \<open>Evaluating binary64 arithmetic\<close>

lemma floor_rat_numeral: "\<lfloor>(numeral a / numeral b :: rat)\<rfloor> = numeral a div numeral b"
  by (metis floor_divide_of_int_eq of_int_numeral)

lemma ceiling_rat_of_int: "\<lceil>(of_int k / of_int l :: rat)\<rceil> = - ((- k) div l)"
proof -
  have "\<lceil>(of_int k / of_int l :: rat)\<rceil> = - \<lfloor>(of_int (- k) / of_int l :: rat)\<rfloor>"
    by (simp add: ceiling_def)
  then show ?thesis by (simp only: floor_divide_of_int_eq)
qed

lemma ceiling_rat_numeral:
  "\<lceil>(numeral a / numeral b :: rat)\<rceil> = - (- numeral a div numeral b)"
  using ceiling_rat_of_int [of "numeral a" "numeral b"] by simp

lemma bit_length_numeral:
  "bit_length (numeral k) = Suc (bit_length (numeral k div 2))"
  "bit_length 0 = 0" "bit_length 1 = 1" "bit_length (Suc 0) = 1"
  by (simp_all add: bit_length.simps)

lemmas round64_eval = round64_def ilog2_def pow2_def round_half_even_def Let_def
  bit_length_numeral floor_rat_numeral ceiling_rat_numeral

lemma round64_50: "round64 50 = Fin 50" by (simp add: round64_eval)
lemma round64_65: "round64 65 = Fin 65" by (simp add: round64_eval)
lemma round64_170: "round64 170 = Fin 170" by (simp add: round64_eval)
lemma round64_235: "round64 235 = Fin 235" by (simp add: round64_eval)
lemma round64_285: "round64 285 = Fin 285" by (simp add: round64_eval)
lemma round64_50_1_3: "round64 (50 * float_1_3) = Fin 65"
  by (simp add: round64_eval float_1_3_def)
lemma round64_285_1_3: "round64 (285 * float_1_3) = Fin (741 / 2)"
  by (simp add: round64_eval float_1_3_def)

text \<open>
  C10. With no slot occupied the loop adds nothing: the total is the baseline of 50, and
  the recommended value is the ceiling of the binary64 product of 50.0 and 1.3, which is
  exactly 65.0. The engine returns (50, 65).
\<close>

theorem empty_build_power: "estimated_power B BuildEngine_init = Inr (50, 65)"
  by (simp add: estimated_power_def BuildEngine_init_def dict_values_def round64_50_1_3)

section \<open>The power estimate\<close>

lemma fadd_zero: "fadd t (Fin 0) = t"
  by (cases t) simp_all

lemma round64_zero: "round64 0 = Fin 0"
  by (simp add: round64_def)

lemma tdp_of_probe: "tdp_of p = py_or (probe_tdp p) (PInt 0)"
  by (simp add: tdp_of_def probe_tdp_def)

lemma sum_tdp_step:
  "(case py_float B (tdp_of p) of Inr f \<Rightarrow> fadd t f | Inl _ \<Rightarrow> t)
   = foldl fadd t (tdp_values B [p])"
  by (simp add: tdp_of_probe py_or_def tdp_values_def round64_zero fadd_zero split: sum.split)

lemma tdp_values_Cons: "tdp_values B (p # ps) = tdp_values B [p] @ tdp_values B ps"
  by (simp add: tdp_values_def)

lemma sum_tdp_foldl: "sum_tdp B t ps = foldl fadd t (tdp_values B ps)"
proof (induction ps arbitrary: t)
  case Nil
  show ?case by (simp add: tdp_values_def)
next
  case (Cons p ps)
  have "sum_tdp B t (p # ps) = sum_tdp B (foldl fadd t (tdp_values B [p])) ps"
    by (simp only: sum_tdp.simps sum_tdp_step)
  also have "\<dots> = foldl fadd (foldl fadd t (tdp_values B [p])) (tdp_values B ps)"
    by (rule Cons.IH)
  also have "\<dots> = foldl fadd t (tdp_values B (p # ps))"
    by (simp only: tdp_values_Cons [of B p ps] foldl_append)
  finally show ?case .
qed

lemma no_tdp_value: "\<not> has_tdp p \<Longrightarrow> tdp_values B [p] = []"
  by (simp add: has_tdp_def tdp_values_def probe_tdp_def attr_def py_or_def)

lemma tdp_values_filter: "tdp_values B ps = tdp_values B (filter has_tdp ps)"
proof (induction ps)
  case Nil
  show ?case by simp
next
  case (Cons p ps)
  show ?case
  proof (cases "has_tdp p")
    case True
    then show ?thesis
      using Cons.IH tdp_values_Cons [of B p ps] tdp_values_Cons [of B p "filter has_tdp ps"]
      by simp
  next
    case False
    then show ?thesis
      using Cons.IH tdp_values_Cons [of B p ps] no_tdp_value [of p B] by simp
  qed
qed

lemma estimated_power_spec:
  "estimated_power B parts =
     (case math_ceil (fmul (spec_consumed B parts) (Fin float_1_3)) of
        Inl e \<Rightarrow> Inl e
      | Inr rec \<Rightarrow> (case int_of_float (spec_consumed B parts) of
                      Inl e \<Rightarrow> Inl e | Inr c \<Rightarrow> Inr (c, rec)))"
  unfolding estimated_power_def spec_consumed_def Let_def sum_tdp_foldl ..


lemma sum_tdp_filter: "sum_tdp B t ps = sum_tdp B t (filter has_tdp ps)"
  by (simp only: sum_tdp_foldl tdp_values_filter [of B ps])

lemma pair_eq_cases:
  assumes "{x, y} = {u, v}"
  shows "(x = u \<and> y = v) \<or> (x = v \<and> y = u)"
  using assms by (auto simp: doubleton_eq_iff)

lemma power_285: 
  assumes "fadd (sum_tdp B (Fin 0) (dict_values parts)) (Fin 50) = Fin 285"
  shows "estimated_power B parts = Inr (285, 371)"
  unfolding estimated_power_def Let_def assms 
  by (simp add: round64_285_1_3 ceiling_rat_numeral)

lemma scenario_65_170:
  assumes f: "filter has_tdp (dict_values parts) = [a, b]"
    and v: "{py_float B (tdp_of a), py_float B (tdp_of b)} = {Inr (Fin 65), Inr (Fin 170)}"
  shows "estimated_power B parts = Inr (285, 371)"
proof -
  have s: "sum_tdp B (Fin 0) (dict_values parts) = sum_tdp B (Fin 0) [a, b]"
    using sum_tdp_filter [of B "Fin 0" "dict_values parts"] f by simp
  from pair_eq_cases [OF v] have "sum_tdp B (Fin 0) [a, b] = Fin 235"
  proof
    assume "py_float B (tdp_of a) = Inr (Fin 65) \<and> py_float B (tdp_of b) = Inr (Fin 170)"
    then show ?thesis by (simp add: round64_235)
  next
    assume "py_float B (tdp_of a) = Inr (Fin 170) \<and> py_float B (tdp_of b) = Inr (Fin 65)"
    then show ?thesis by (simp add: round64_235)
  qed
  with s have "fadd (sum_tdp B (Fin 0) (dict_values parts)) (Fin 50) = Fin 285"
    by (simp add: round64_285)
  then show ?thesis by (rule power_285)
qed

lemma round64_not_NaN: "round64 q \<noteq> NaN"
  by (simp add: round64_def Let_def)

text \<open>
  C2 (as amended). When exactly two slots bear a TDP attribute and their probed values
  coerce to 65 and 170, in either order, the engine returns (285, 371). In general the
  loop computes the float sum of the coercible TDP values, in slot order from 0.0, plus
  the baseline of 50; when that total is finite and its binary64 product with 1.3 is
  finite, the engine returns the total truncated toward zero (its floor when it is not
  negative) and the ceiling of the product; on an infinite or NaN total it raises.
\<close>

theorem estimated_power_formula:
  "(filter has_tdp (dict_values parts) = [a, b]
      \<and> {py_float B (tdp_of a), py_float B (tdp_of b)} = {Inr (Fin 65), Inr (Fin 170)}
    \<longrightarrow> estimated_power B parts = Inr (285, 371))
   \<and> estimated_power B parts =
       (case spec_consumed B parts of
          Fin t \<Rightarrow> (case fmul (Fin t) (Fin float_1_3) of
                      Fin r \<Rightarrow> Inr (if 0 \<le> t then \<lfloor>t\<rfloor> else \<lceil>t\<rceil>, \<lceil>r\<rceil>)
                    | _ \<Rightarrow> Inl OverflowError)
        | NaN \<Rightarrow> Inl ValueError
        | _ \<Rightarrow> Inl OverflowError)"
proof (intro conjI impI)
  assume "filter has_tdp (dict_values parts) = [a, b]
      \<and> {py_float B (tdp_of a), py_float B (tdp_of b)} = {Inr (Fin 65), Inr (Fin 170)}"
  then show "estimated_power B parts = Inr (285, 371)"
    using scenario_65_170 by blast
next
  show "estimated_power B parts =
       (case spec_consumed B parts of
          Fin t \<Rightarrow> (case fmul (Fin t) (Fin float_1_3) of
                      Fin r \<Rightarrow> Inr (if 0 \<le> t then \<lfloor>t\<rfloor> else \<lceil>t\<rceil>, \<lceil>r\<rceil>)
                    | _ \<Rightarrow> Inl OverflowError)
        | NaN \<Rightarrow> Inl ValueError
        | _ \<Rightarrow> Inl OverflowError)"
  proof (cases "spec_consumed B parts")
    case (Fin t)
    show ?thesis
    proof (cases "round64 (t * float_1_3)")
      case (Fin r)
      with \<open>spec_consumed B parts = Fin t\<close> show ?thesis
        by (simp add: estimated_power_spec)
    next
      case PosInf
      with \<open>spec_consumed B parts = Fin t\<close> show ?thesis
        by (simp add: estimated_power_spec)
    next
      case NegInf
      with \<open>spec_consumed B parts = Fin t\<close> show ?thesis
        by (simp add: estimated_power_spec)
    next
      case NaN
      then show ?thesis by (simp add: round64_not_NaN)
    qed
  next
    case PosInf
    then show ?thesis by (simp add: estimated_power_spec fsign_def float_1_3_def)
  next
    case NegInf
    then show ?thesis by (simp add: estimated_power_spec fsign_def float_1_3_def)
  next
    case NaN
    then show ?thesis by (simp add: estimated_power_spec)
  qed
qed

lemma sel_65_170_values:
  "dict_values sel_65_170 =
     [mk_part ''c1'' ''CPU'' [ustr ''tdp_w'' \<mapsto> PInt 65], mk_part ''r1'' ''RAM'' Map.empty,
      mk_part ''g1'' ''GPU'' [ustr ''tdp'' \<mapsto> PInt 170]]"
  by (simp add: sel_65_170_def dict_values_def)

lemma sel_65_170_filter:
  "filter has_tdp (dict_values sel_65_170) =
     [mk_part ''c1'' ''CPU'' [ustr ''tdp_w'' \<mapsto> PInt 65],
      mk_part ''g1'' ''GPU'' [ustr ''tdp'' \<mapsto> PInt 170]]"
  by (simp add: sel_65_170_values has_tdp_def mk_part_def ustr_def)

lemma sel_65_170_floats:
  "py_float B (tdp_of (mk_part ''c1'' ''CPU'' [ustr ''tdp_w'' \<mapsto> PInt 65])) = Inr (Fin 65)"
  "py_float B (tdp_of (mk_part ''g1'' ''GPU'' [ustr ''tdp'' \<mapsto> PInt 170])) = Inr (Fin 170)"
  by (simp_all add: tdp_of_def attr_def py_or_def mk_part_def ustr_def round64_65 round64_170)

theorem estimated_power_formula_witness:
  "filter has_tdp (dict_values sel_65_170) =
     [mk_part ''c1'' ''CPU'' [ustr ''tdp_w'' \<mapsto> PInt 65],
      mk_part ''g1'' ''GPU'' [ustr ''tdp'' \<mapsto> PInt 170]]
   \<and> {py_float ascii_builtins (tdp_of (mk_part ''c1'' ''CPU'' [ustr ''tdp_w'' \<mapsto> PInt 65])),
       py_float ascii_builtins (tdp_of (mk_part ''g1'' ''GPU'' [ustr ''tdp'' \<mapsto> PInt 170]))}
      = {Inr (Fin 65), Inr (Fin 170)}
   \<and> estimated_power ascii_builtins sel_65_170 = Inr (285, 371)"
  using estimated_power_formula [of sel_65_170
      "mk_part ''c1'' ''CPU'' [ustr ''tdp_w'' \<mapsto> PInt 65]"
      "mk_part ''g1'' ''GPU'' [ustr ''tdp'' \<mapsto> PInt 170]" ascii_builtins]
  by (simp only: sel_65_170_filter sel_65_170_floats simp_thms)

lemma floor_rat_one: "\<lfloor>(1 / numeral b :: rat)\<rfloor> = 1 div numeral b"
  using floor_divide_of_int_eq [of 1 "numeral b", where ?'a = rat] by simp

lemma ceiling_rat_one: "\<lceil>(1 / numeral b :: rat)\<rceil> = - (- 1 div numeral b)"
  using ceiling_rat_of_int [of 1 "numeral b"] by simp

lemmas rat_floor_eval = floor_rat_numeral ceiling_rat_numeral floor_rat_one ceiling_rat_one
  ceiling_minus floor_minus

lemma round64_neg_half: "round64 (- (1 / 2)) = Fin (- (1 / 2))"
  apply (simp add: round64_def Let_def)
  apply (simp add: ilog2_def bit_length_numeral)
  apply (simp add: pow2_def round_half_even_def)
  done

lemma spec_consumed_negative: "spec_consumed ascii_builtins sel_negative_tdp = Fin (- 1 / 2)"
  by (simp add: spec_consumed_def sel_negative_tdp_def dict_values_def tdp_values_def
      probe_tdp_def attr_def py_or_def mk_part_def ustr_def round64_neg_half)

theorem estimated_power_floor_counterexample:
  "spec_consumed ascii_builtins sel_negative_tdp = Fin (- 1 / 2)
   \<and> estimated_power ascii_builtins sel_negative_tdp = Inr (0, 0)
   \<and> \<lfloor>- 1 / 2 :: rat\<rfloor> = - 1"
proof -
  have "round64 (- (5854679515581645 / 9007199254740992))
          = Fin (- (5854679515581645 / 9007199254740992))"
    apply (simp add: round64_def Let_def)
    apply (simp add: ilog2_def bit_length_numeral rat_floor_eval)
    apply (simp add: pow2_def round_half_even_def rat_floor_eval)
    done
  then show ?thesis
    by (simp add: estimated_power_spec spec_consumed_negative float_1_3_def rat_floor_eval)
qed



section \<open>Compatibility issues\<close>

lemma psu_prefix_Cons: "\<exists>t. psu_prefix = 70 # t"
  by (simp add: psu_prefix_def ustr_def)

lemma not_psu_issue_hd: "s = c # t \<Longrightarrow> c \<noteq> 70 \<Longrightarrow> \<not> is_psu_issue s"
proof -
  assume s: "s = c # t" and c: "c \<noteq> 70"
  obtain u where u: "psu_prefix = 70 # u" using psu_prefix_Cons by blast
  show ?thesis unfolding is_psu_issue_def u s using c by simp
qed

lemma not_psu_socket: "\<not> is_psu_issue (socket_issue B x y)"
  by (rule not_psu_issue_hd [where c = 83]) (simp_all add: socket_issue_def ustr_def)

lemma not_psu_bios: "\<not> is_psu_issue (bios_issue B x)"
  by (rule not_psu_issue_hd [where c = 65]) (simp_all add: bios_issue_def ustr_def)

lemma not_psu_ram: "\<not> is_psu_issue (ram_issue a b)"
  by (rule not_psu_issue_hd [where c = 84]) (simp_all add: ram_issue_def ustr_def)

lemma not_psu_gpu: "\<not> is_psu_issue (gpu_issue B x y)"
  by (rule not_psu_issue_hd [where c = 71]) (simp_all add: gpu_issue_def ustr_def)

lemma not_psu_cooler: "\<not> is_psu_issue (cooler_issue B x y)"
  by (rule not_psu_issue_hd [where c = 67]) (simp_all add: cooler_issue_def ustr_def)

lemma starts_with_append: "starts_with p (p @ s)"
  by (induction p) simp_all

lemma is_psu_psu_issue: "is_psu_issue (psu_issue B w r)"
  by (simp add: is_psu_issue_def psu_issue_def starts_with_append)

lemma filter_rule_cpu_mb: "filter is_psu_issue (rule_cpu_mb B cpu mb) = []"
  by (simp add: rule_cpu_mb_def Let_def not_psu_socket not_psu_bios split: option.split)

lemma filter_rule_ram_mb: "rule_ram_mb ram mb = Inr xs \<Longrightarrow> filter is_psu_issue xs = []"
  by (auto simp: rule_ram_mb_def Let_def not_psu_ram split: option.splits sum.splits if_splits)

lemma filter_rule_gpu_case: "filter is_psu_issue (rule_gpu_case B gpu c) = []"
  by (simp add: rule_gpu_case_def Let_def not_psu_gpu split: option.split)

lemma filter_rule_cooler_case: "filter is_psu_issue (rule_cooler_case B k c) = []"
  by (simp add: rule_cooler_case_def Let_def not_psu_cooler split: option.split)

lemma compatibility_issues_Inr:
  assumes "rule_ram_mb (dict_get parts (ustr ''RAM'')) (dict_get parts s_placa_mae) = Inr ris"
    and "rule_psu B parts (dict_get parts (ustr ''Fonte'')) = Inr pis"
  shows "compatibility_issues B parts =
           Inr (rule_cpu_mb B (dict_get parts (ustr ''CPU'')) (dict_get parts s_placa_mae) @ ris
                @ rule_gpu_case B (dict_get parts (ustr ''GPU'')) (dict_get parts (ustr ''Gabinete''))
                @ rule_cooler_case B (dict_get parts (ustr ''Cooler''))
                    (dict_get parts (ustr ''Gabinete''))
                @ pis)"
  using assms by (simp add: compatibility_issues_def Let_def)

lemma compatibility_issues_InrD:
  assumes "compatibility_issues B parts = Inr issues"
  shows "\<exists>ris pis. rule_ram_mb (dict_get parts (ustr ''RAM'')) (dict_get parts s_placa_mae) = Inr ris
     \<and> rule_psu B parts (dict_get parts (ustr ''Fonte'')) = Inr pis
     \<and> issues = rule_cpu_mb B (dict_get parts (ustr ''CPU'')) (dict_get parts s_placa_mae) @ ris
                @ rule_gpu_case B (dict_get parts (ustr ''GPU'')) (dict_get parts (ustr ''Gabinete''))
                @ rule_cooler_case B (dict_get parts (ustr ''Cooler''))
                    (dict_get parts (ustr ''Gabinete''))
                @ pis"
  using assms by (auto simp: compatibility_issues_def Let_def split: sum.splits)

lemma rule_psu_eval:
  assumes "truthy (psu_watt psu)" and "py_int B (psu_watt psu) = Inr w"
    and "estimated_power B parts = Inr (c, r)"
  shows "rule_psu B parts (Some psu) = Inr (if w < r then [psu_issue B (psu_watt psu) r] else [])"
  using assms by (simp add: rule_psu_def Let_def)

text \<open>
  C3 (as amended). Let the selection hold a power supply whose probed wattage is truthy
  (not zero, not empty) and coerces to the integer \<open>w\<close>, let \<^verbatim>\<open>estimated_power\<close> return
  the recommended value \<open>rec\<close>, and let the memory rule not raise. Then
  \<^verbatim>\<open>compatibility_issues\<close> returns, with exactly one PSU-insufficiency issue when
  \<open>w < rec\<close> and none when \<open>w \<ge> rec\<close>; in particular none at \<open>w = rec\<close> and one at
  \<open>w = rec - 1\<close>.
\<close>

theorem psu_sufficiency_boundary:
  assumes "dict_get parts (ustr ''Fonte'') = Some psu"
    and "truthy (psu_watt psu)"
    and "py_int B (psu_watt psu) = Inr w"
    and "estimated_power B parts = Inr (c, rec)"
    and "rule_ram_mb (dict_get parts (ustr ''RAM'')) (dict_get parts s_placa_mae) = Inr ris"
  shows "\<exists>issues. compatibility_issues B parts = Inr issues
           \<and> length (filter is_psu_issue issues) = (if w < rec then 1 else 0)"
proof -
  have p: "rule_psu B parts (dict_get parts (ustr ''Fonte''))
             = Inr (if w < rec then [psu_issue B (psu_watt psu) rec] else [])"
    using assms(1) rule_psu_eval [OF assms(2,3,4)] by simp
  note c = compatibility_issues_Inr [OF assms(5) p]
  have "filter is_psu_issue ris = []"
    using assms(5) by (rule filter_rule_ram_mb)
  then have "length (filter is_psu_issue
      (rule_cpu_mb B (dict_get parts (ustr ''CPU'')) (dict_get parts s_placa_mae) @ ris
                @ rule_gpu_case B (dict_get parts (ustr ''GPU'')) (dict_get parts (ustr ''Gabinete''))
                @ rule_cooler_case B (dict_get parts (ustr ''Cooler''))
                    (dict_get parts (ustr ''Gabinete''))
                @ (if w < rec then [psu_issue B (psu_watt psu) rec] else [])))
       = (if w < rec then 1 else 0)"
    by (simp add: filter_rule_cpu_mb filter_rule_gpu_case filter_rule_cooler_case
        is_psu_psu_issue)
  with c show ?thesis by blast
qed



lemma psu_64_facts:
  "dict_get sel_psu_64 (ustr ''Fonte'') = Some psu_64"
  "dict_get sel_psu_64 (ustr ''RAM'') = None"
  "psu_watt psu_64 = PInt 64"
  by (simp_all add: sel_psu_64_def psu_64_def dict_get_def psu_watt_def attr_def py_or_def
      mk_part_def ustr_def)

lemma no_tdp_0: "attributes p (ustr ''tdp_w'') = None \<Longrightarrow> attributes p (ustr ''tdp'') = None
  \<Longrightarrow> tdp_of p = PInt 0"
  by (simp add: tdp_of_def attr_def py_or_def)

lemma power_psu_64: "estimated_power B sel_psu_64 = Inr (50, 65)"
proof -
  have "tdp_of psu_64 = PInt 0"
    by (rule no_tdp_0) (simp_all add: psu_64_def mk_part_def ustr_def)
  then show ?thesis
    by (simp add: estimated_power_def sel_psu_64_def dict_values_def round64_zero
        round64_50_1_3)
qed

theorem psu_sufficiency_boundary_witness:
  "dict_get sel_psu_64 (ustr ''Fonte'') = Some psu_64
   \<and> truthy (psu_watt psu_64)
   \<and> py_int ascii_builtins (psu_watt psu_64) = Inr 64
   \<and> estimated_power ascii_builtins sel_psu_64 = Inr (50, 65)
   \<and> rule_ram_mb (dict_get sel_psu_64 (ustr ''RAM'')) (dict_get sel_psu_64 s_placa_mae) = Inr []
   \<and> (\<exists>issues. compatibility_issues ascii_builtins sel_psu_64 = Inr issues
           \<and> length (filter is_psu_issue issues) = 1)"
proof -
  have h1: "dict_get sel_psu_64 (ustr ''Fonte'') = Some psu_64"
    by (rule psu_64_facts)
  have h2: "truthy (psu_watt psu_64)"
    by (simp add: psu_64_facts)
  have h3: "py_int ascii_builtins (psu_watt psu_64) = Inr 64"
    by (simp add: psu_64_facts)
  have h4: "estimated_power ascii_builtins sel_psu_64 = Inr (50, 65)"
    by (rule power_psu_64)
  have h5: "rule_ram_mb (dict_get sel_psu_64 (ustr ''RAM'')) (dict_get sel_psu_64 s_placa_mae)
              = Inr []"
    by (simp add: psu_64_facts rule_ram_mb_def)
  from psu_sufficiency_boundary [OF h1 h2 h3 h4 h5] h1 h2 h3 h4 h5
  show ?thesis by simp
qed

lemma psu_zero_facts:
  "dict_get sel_psu_zero (ustr ''Fonte'') = Some psu_zero"
  "dict_get sel_psu_zero (ustr ''RAM'') = None"
  "dict_get sel_psu_zero (ustr ''CPU'') = None"
  "dict_get sel_psu_zero (ustr ''GPU'') = None"
  "dict_get sel_psu_zero (ustr ''Cooler'') = None"
  "psu_watt psu_zero = PInt 0"
  by (simp_all add: sel_psu_zero_def psu_zero_def dict_get_def psu_watt_def attr_def py_or_def
      mk_part_def ustr_def)

lemma power_psu_zero: "estimated_power B sel_psu_zero = Inr (50, 65)"
proof -
  have "tdp_of psu_zero = PInt 0"
    by (rule no_tdp_0) (simp_all add: psu_zero_def mk_part_def ustr_def)
  then show ?thesis
    by (simp add: estimated_power_def sel_psu_zero_def dict_values_def round64_zero
        round64_50_1_3)
qed

theorem psu_zero_watt_counterexample:
  "dict_get sel_psu_zero (ustr ''Fonte'') = Some psu_zero
   \<and> py_int ascii_builtins (psu_watt psu_zero) = Inr 0
   \<and> estimated_power ascii_builtins sel_psu_zero = Inr (50, 65)
   \<and> compatibility_issues ascii_builtins sel_psu_zero = Inr []"
  by (simp add: psu_zero_facts power_psu_zero compatibility_issues_def Let_def
      rule_ram_mb_def rule_psu_def rule_cpu_mb_def rule_gpu_case_def rule_cooler_case_def)



text \<open>
  C7 (as amended). When the CPU slot and the motherboard slot are both occupied and the
  processor's \<^verbatim>\<open>required_bios\<close> or \<^verbatim>\<open>bios_note\<close> attribute is truthy, every list that
  \<^verbatim>\<open>compatibility_issues\<close> returns contains the BIOS advisory built from that attribute,
  whatever the sockets are and whatever else is selected.
\<close>

theorem bios_advisory_with_motherboard:
  assumes "dict_get parts (ustr ''CPU'') = Some cpu"
    and "dict_get parts s_placa_mae = Some mb"
    and "truthy (bios_note cpu)"
    and "compatibility_issues B parts = Inr issues"
  shows "bios_issue B (bios_note cpu) \<in> set issues"
proof -
  have "bios_issue B (bios_note cpu) \<in> set (rule_cpu_mb B (Some cpu) (Some mb))"
    using assms(3) by (simp add: rule_cpu_mb_def Let_def bios_note_def)
  moreover obtain ris pis where
    "issues = rule_cpu_mb B (dict_get parts (ustr ''CPU'')) (dict_get parts s_placa_mae) @ ris
                @ rule_gpu_case B (dict_get parts (ustr ''GPU'')) (dict_get parts (ustr ''Gabinete''))
                @ rule_cooler_case B (dict_get parts (ustr ''Cooler''))
                    (dict_get parts (ustr ''Gabinete''))
                @ pis"
    using compatibility_issues_InrD [OF assms(4)] by blast
  ultimately show ?thesis
    by (simp add: assms(1,2))
qed

lemma cpu_bios_mb_facts:
  "dict_get sel_cpu_bios_mb (ustr ''CPU'') = Some cpu_bios"
  "dict_get sel_cpu_bios_mb s_placa_mae = Some mb_lga"
  "dict_get sel_cpu_bios_mb (ustr ''RAM'') = None"
  "dict_get sel_cpu_bios_mb (ustr ''GPU'') = None"
  "dict_get sel_cpu_bios_mb (ustr ''Cooler'') = None"
  "dict_get sel_cpu_bios_mb (ustr ''Fonte'') = None"
  by (simp_all add: sel_cpu_bios_mb_def dict_get_def ustr_def s_placa_mae_def)

lemma cpu_bios_attrs:
  "bios_note cpu_bios = PStr (ustr ''F20'')"
  "py_or (attr cpu_bios (ustr ''soquete'')) (attr cpu_bios (ustr ''socket'')) = PStr (ustr ''AM4'')"
  "py_or (attr cpu_bios (ustr ''required_bios'')) (attr cpu_bios (ustr ''bios_note''))
     = PStr (ustr ''F20'')"
  "py_or (attr mb_lga (ustr ''soquete'')) (attr mb_lga (ustr ''socket'')) = PStr (ustr ''LGA1700'')"
  by (simp_all add: bios_note_def cpu_bios_def mb_lga_def mk_part_def attr_def py_or_def ustr_def)

lemma issues_cpu_bios_mb:
  "compatibility_issues B sel_cpu_bios_mb =
     Inr [socket_issue B (PStr (ustr ''AM4'')) (PStr (ustr ''LGA1700'')),
          bios_issue B (PStr (ustr ''F20''))]"
proof -
  have "ustr ''AM4'' \<noteq> ustr ''LGA1700''" "ustr ''AM4'' \<noteq> []" "ustr ''LGA1700'' \<noteq> []"
    "ustr ''F20'' \<noteq> []"
    by (simp_all add: ustr_def)
  then show ?thesis
    by (simp add: compatibility_issues_def Let_def cpu_bios_mb_facts cpu_bios_attrs
      rule_ram_mb_def rule_psu_def rule_cpu_mb_def rule_gpu_case_def rule_cooler_case_def)
qed

theorem bios_advisory_with_motherboard_witness:
  "dict_get sel_cpu_bios_mb (ustr ''CPU'') = Some cpu_bios
   \<and> dict_get sel_cpu_bios_mb s_placa_mae = Some mb_lga
   \<and> truthy (bios_note cpu_bios)
   \<and> compatibility_issues ascii_builtins sel_cpu_bios_mb =
       Inr [socket_issue ascii_builtins (PStr (ustr ''AM4'')) (PStr (ustr ''LGA1700'')),
            bios_issue ascii_builtins (PStr (ustr ''F20''))]
   \<and> bios_issue ascii_builtins (bios_note cpu_bios)
       \<in> set [socket_issue ascii_builtins (PStr (ustr ''AM4'')) (PStr (ustr ''LGA1700'')),
              bios_issue ascii_builtins (PStr (ustr ''F20''))]"
proof -
  have h1: "dict_get sel_cpu_bios_mb (ustr ''CPU'') = Some cpu_bios"
    and h2: "dict_get sel_cpu_bios_mb s_placa_mae = Some mb_lga"
    by (rule cpu_bios_mb_facts)+
  have h3: "truthy (bios_note cpu_bios)"
    by (simp add: cpu_bios_attrs ustr_def)
  note h4 = issues_cpu_bios_mb [of ascii_builtins]
  from bios_advisory_with_motherboard [OF h1 h2 h3 h4] h1 h2 h3 h4
  show ?thesis by (intro conjI)
qed

lemma cpu_bios_facts:
  "dict_get sel_cpu_bios (ustr ''CPU'') = Some cpu_bios"
  "dict_get sel_cpu_bios s_placa_mae = None"
  "dict_get sel_cpu_bios (ustr ''RAM'') = None"
  "dict_get sel_cpu_bios (ustr ''GPU'') = None"
  "dict_get sel_cpu_bios (ustr ''Cooler'') = None"
  "dict_get sel_cpu_bios (ustr ''Fonte'') = None"
  by (simp_all add: sel_cpu_bios_def dict_get_def ustr_def s_placa_mae_def)

theorem bios_advisory_counterexample:
  "dict_get sel_cpu_bios (ustr ''CPU'') = Some cpu_bios
   \<and> attributes cpu_bios (ustr ''required_bios'') = Some (PStr (ustr ''F20''))
   \<and> compatibility_issues ascii_builtins sel_cpu_bios = Inr []"
  by (simp add: cpu_bios_facts compatibility_issues_def Let_def
      rule_ram_mb_def rule_psu_def rule_cpu_mb_def rule_gpu_case_def rule_cooler_case_def)
    (simp add: cpu_bios_def mk_part_def ustr_def)

lemma ram_int_facts:
  "dict_get sel_ram_int (ustr ''RAM'') = Some ram_int_type"
  "dict_get sel_ram_int s_placa_mae = Some mb_ddr4"
  by (simp_all add: sel_ram_int_def dict_get_def ustr_def s_placa_mae_def)

lemma ram_int_attrs:
  "py_or (py_or (attr ram_int_type (ustr ''tipo'')) (attr ram_int_type (ustr ''mem_type'')))
     (attr ram_int_type (ustr ''type'')) = PInt 4"
  "py_or (attr mb_ddr4 (ustr ''mem_type'')) (attr mb_ddr4 (ustr ''ram_type''))
     = PStr (ustr ''DDR4'')"
  by (simp_all add: ram_int_type_def mb_ddr4_def mk_part_def attr_def py_or_def ustr_def)

text \<open>
  C9. The memory rule calls \<^verbatim>\<open>upper\<close> outside any \<^verbatim>\<open>try\<close>: with a memory part whose
  \<^verbatim>\<open>tipo\<close> is the integer 4 and a motherboard whose \<^verbatim>\<open>mem_type\<close> is \<^verbatim>\<open>DDR4\<close>, the
  function raises AttributeError instead of skipping the rule.
\<close>

theorem ram_type_not_string_raises:
  "compatibility_issues B sel_ram_int = Inl AttributeError"
proof -
  have "ustr ''DDR4'' \<noteq> []" by (simp add: ustr_def)
  then have "rule_ram_mb (Some ram_int_type) (Some mb_ddr4) = Inl AttributeError"
    by (simp add: rule_ram_mb_def Let_def ram_int_attrs)
  then show ?thesis
    by (simp add: compatibility_issues_def Let_def ram_int_facts)
qed



section \<open>The assembly guide\<close>

lemma occupied_iff: "occupied parts k \<longleftrightarrow> k \<in> fst ` set parts"
  by (simp add: occupied_def dict_get_def map_of_eq_None_iff)

lemma slot_names_distinct:
  "ustr ''Cooler'' \<notin> {s_placa_mae, ustr ''CPU'', ustr ''RAM'', ustr ''Fonte'', ustr ''Gabinete'',
      ustr ''GPU''}"
  "ustr ''Armazenamento'' \<notin> {s_placa_mae, ustr ''CPU'', ustr ''RAM'', ustr ''Fonte'',
      ustr ''Gabinete'', ustr ''GPU''}"
  by (simp_all add: ustr_def s_placa_mae_def)

text \<open>
  C1. When exactly the slots Motherboard, CPU, RAM, PSU, Case and GPU are occupied and
  \<^verbatim>\<open>compatibility_issues\<close> returns the empty list, \<^verbatim>\<open>assembly_steps\<close> returns the nine
  lines: tooling, motherboard preparation, CPU, RAM, PSU, motherboard mounting, GPU,
  front-panel cabling, peripherals and power-on, with no warning block and nothing else.
\<close>

theorem assembly_steps_full_build:
  assumes "fst ` set parts =
      {s_placa_mae, ustr ''CPU'', ustr ''RAM'', ustr ''Fonte'', ustr ''Gabinete'', ustr ''GPU''}"
    and "compatibility_issues B parts = Inr []"
  shows "assembly_steps B parts =
      Inr [step_tools, step_prepare_mb, step_cpu, step_ram, step_psu, step_mount_mb, step_gpu,
           step_front_panel, step_peripherals]"
proof -
  have occ: "occupied parts s_placa_mae" "occupied parts (ustr ''CPU'')"
    "occupied parts (ustr ''RAM'')" "occupied parts (ustr ''Fonte'')"
    "occupied parts (ustr ''GPU'')"
    by (simp_all add: occupied_iff assms(1))
  have "\<not> occupied parts (ustr ''Cooler'')"
    unfolding occupied_iff assms(1) by (rule slot_names_distinct)
  moreover have "ustr ''Armazenamento'' \<notin> fst ` set parts"
    unfolding assms(1) by (rule slot_names_distinct)
  then have "dict_get parts (ustr ''Armazenamento'') = None"
    by (simp add: dict_get_def map_of_eq_None_iff)
  ultimately have "plain_steps B parts =
      [step_tools, step_prepare_mb, step_cpu, step_ram, step_psu, step_mount_mb, step_gpu,
       step_front_panel, step_peripherals]"
    using occ by (simp add: plain_steps_def)
  then show ?thesis
    by (simp add: assembly_steps_def assms(2))
qed



lemma mk_part_no_attr [simp]: "attr (mk_part i c Map.empty) k = PNone"
  by (simp add: mk_part_def attr_def)

lemma sel_six_slots:
  "fst ` set sel_six =
      {s_placa_mae, ustr ''CPU'', ustr ''RAM'', ustr ''Fonte'', ustr ''Gabinete'', ustr ''GPU''}"
  by (simp add: sel_six_def)

lemma sel_six_get:
  "dict_get sel_six (ustr ''CPU'') = Some (mk_part ''c1'' ''CPU'' Map.empty)"
  "dict_get sel_six s_placa_mae = Some (mk_part ''m1'' ''Motherboard'' Map.empty)"
  "dict_get sel_six (ustr ''RAM'') = Some (mk_part ''r1'' ''RAM'' Map.empty)"
  "dict_get sel_six (ustr ''GPU'') = Some (mk_part ''g1'' ''GPU'' Map.empty)"
  "dict_get sel_six (ustr ''Gabinete'') = Some (mk_part ''k1'' ''Case'' Map.empty)"
  "dict_get sel_six (ustr ''Fonte'') = Some (mk_part ''p1'' ''PSU'' Map.empty)"
  "dict_get sel_six (ustr ''Cooler'') = None"
  by (simp_all add: sel_six_def dict_get_def ustr_def s_placa_mae_def)

lemma tdp_of_no_attr: "tdp_of (mk_part i c Map.empty) = PInt 0"
  by (simp add: tdp_of_def py_or_def)

lemma power_sel_six: "estimated_power B sel_six = Inr (50, 65)"
  by (simp add: estimated_power_def sel_six_def dict_values_def tdp_of_no_attr round64_zero
      round64_50_1_3)

lemma issues_sel_six: "compatibility_issues B sel_six = Inr []"
  by (simp add: compatibility_issues_def Let_def sel_six_get rule_ram_mb_def rule_psu_def
      rule_cpu_mb_def rule_gpu_case_def rule_cooler_case_def exceeds_def psu_watt_def py_or_def
      power_sel_six)

theorem assembly_steps_full_build_witness:
  "fst ` set sel_six =
      {s_placa_mae, ustr ''CPU'', ustr ''RAM'', ustr ''Fonte'', ustr ''Gabinete'', ustr ''GPU''}
   \<and> compatibility_issues ascii_builtins sel_six = Inr []
   \<and> assembly_steps ascii_builtins sel_six =
      Inr [step_tools, step_prepare_mb, step_cpu, step_ram, step_psu, step_mount_mb, step_gpu,
           step_front_panel, step_peripherals]"
proof -
  note h1 = sel_six_slots
  note h2 = issues_sel_six [of ascii_builtins]
  from h1 h2 assembly_steps_full_build [OF h1 h2] show ?thesis by (intro conjI)
qed



section \<open>Category normalisation\<close>

lemma dropWhile_spaces_append:
  "list_all py_isspace ws \<Longrightarrow> dropWhile py_isspace (ws @ s) = dropWhile py_isspace s"
  by (induction ws) simp_all

lemma py_strip_padded:
  assumes "v \<noteq> []" and "\<not> py_isspace (hd v)" and "\<not> py_isspace (last v)"
    and "list_all py_isspace ws1" and "list_all py_isspace ws2"
  shows "py_strip (ws1 @ v @ ws2) = v"
proof -
  have "dropWhile py_isspace (v @ ws2) = v @ ws2"
    using assms(1,2) by (cases v) simp_all
  then have a: "dropWhile py_isspace (ws1 @ v @ ws2) = v @ ws2"
    using assms(4) by (simp add: dropWhile_spaces_append)
  have "list_all py_isspace (rev ws2)"
    using assms(5) by (simp add: list_all_iff)
  then have "dropWhile py_isspace (rev ws2 @ rev v) = dropWhile py_isspace (rev v)"
    by (rule dropWhile_spaces_append)
  also have "\<dots> = rev v"
    using assms(1,3) by (cases "rev v") (auto simp: last_rev [symmetric] hd_rev)
  finally show ?thesis
    by (simp add: py_strip_def a)
qed

lemma py_strip_idem: "py_strip (py_strip s) = py_strip s"
proof (cases "py_strip s = []")
  case True
  have "py_strip [] = []" by (simp add: py_strip_def)
  then show ?thesis by (simp only: True)
next
  case False
  let ?d = "dropWhile py_isspace s"
  let ?r = "dropWhile py_isspace (rev ?d)"
  have r: "py_strip s = rev ?r" by (simp add: py_strip_def)
  with False have rne: "?r \<noteq> []" by simp
  then have "\<not> py_isspace (hd ?r)" by (rule hd_dropWhile)
  then have l: "\<not> py_isspace (last (py_strip s))"
    using rne by (simp add: r last_rev)
  have "\<exists>ys. rev ?d = ys @ ?r"
    by (metis takeWhile_dropWhile_id)
  then obtain ys where "rev ?d = ys @ ?r" ..
  then have "?d = rev ?r @ rev ys"
    by (metis rev_append rev_rev_ident)
  then have d: "?d = py_strip s @ rev ys" by (simp add: r)
  with False have "?d \<noteq> []" by simp
  then have "\<not> py_isspace (hd ?d)" by (rule hd_dropWhile)
  with d False have h: "\<not> py_isspace (hd (py_strip s))" by simp
  from py_strip_padded [OF False h l, of "[]" "[]"] show ?thesis by simp
qed

lemma space_not_upper: "py_isspace c \<Longrightarrow> lower_cp c = c"
  by (auto simp: py_isspace_def lower_cp_def)

lemma lower_not_space: "\<not> py_isspace (lower_cp c) \<Longrightarrow> \<not> py_isspace c"
  using space_not_upper by fastforce



lemma listed_facts:
  "list_all (\<lambda>(l, c). canonical_of l = Some c \<and> l \<noteq> [] \<and> \<not> py_isspace (hd l)
      \<and> \<not> py_isspace (last l)) listed_labels"
  by (simp add: listed_labels_def board_terms_def exact_labels_def canonical_of_def ustr_def
      s_placa_mae_def py_isspace_def)

lemma canonical_fixed: "map normalize_category canonical_names = canonical_names"
  by (simp add: canonical_names_def normalize_category_def exact_labels_def board_terms_def
      canonical_of_def ustr_def s_placa_mae_def py_strip_def py_lower_def lower_cp_def
      py_isspace_def)



lemma first_match_in: "first_match l rows = Some c \<Longrightarrow> c \<in> fst ` set rows"
  by (induction l rows rule: first_match.induct) (auto split: if_splits)

lemma canonical_of_in: "canonical_of l = Some c \<Longrightarrow> c \<in> set canonical_names"
  by (auto simp: canonical_of_def canonical_names_def dest: first_match_in split: if_splits)

lemma normalize_canonical: "c \<in> set canonical_names \<Longrightarrow> normalize_category c = c"
proof -
  assume "c \<in> set canonical_names"
  then have "c \<in> set (map normalize_category canonical_names)
      \<and> normalize_category c = c"
    using canonical_fixed map_eq_conv [of normalize_category canonical_names id] by auto
  then show ?thesis ..
qed

lemma normalize_idem: "normalize_category (normalize_category cat) = normalize_category cat"
proof (cases "canonical_of (py_lower (py_strip cat))")
  case None
  then have "normalize_category cat = py_strip cat"
    by (simp add: normalize_category_def)
  moreover have "normalize_category (py_strip cat) = py_strip cat"
    using None by (simp add: normalize_category_def py_strip_idem)
  ultimately show ?thesis by simp
next
  case (Some c)
  then have "normalize_category cat = c"
    by (simp add: normalize_category_def)
  moreover have "normalize_category c = c"
    using Some by (intro normalize_canonical canonical_of_in)
  ultimately show ?thesis by simp
qed

lemma listed_label:
  assumes "(l, c) \<in> set listed_labels"
  shows "canonical_of l = Some c" and "l \<noteq> []" and "\<not> py_isspace (hd l)"
    and "\<not> py_isspace (last l)"
  using assms listed_facts by (auto simp: list_all_iff)

lemma variant_strip:
  assumes "(l, c) \<in> set listed_labels" and "py_lower v = l"
    and "list_all py_isspace ws1" and "list_all py_isspace ws2"
  shows "py_strip (ws1 @ v @ ws2) = v"
proof -
  have ne: "v \<noteq> []"
    using listed_label(2) [OF assms(1)] assms(2) by (auto simp: py_lower_def)
  have "hd l = lower_cp (hd v)" "last l = lower_cp (last v)"
    using ne by (simp_all add: assms(2) [symmetric] py_lower_def hd_map last_map)
  then have "\<not> py_isspace (hd v)" "\<not> py_isspace (last v)"
    using listed_label(3,4) [OF assms(1)] by (simp_all add: lower_not_space)
  with ne show ?thesis
    using assms(3,4) by (intro py_strip_padded)
qed

text \<open>
  C4 (as amended). Normalisation is idempotent, and each of the eight canonical names is
  returned unchanged. For every label that the source lists (the three board terms and
  the nineteen exact labels, among them \<open>processador\<close> and \<open>mem\<close>\<open>0xF3\<close>\<open>ria\<close>, but
  neither \<open>processor\<close> nor \<open>memory\<close>), every spelling \<open>v\<close> of it in other letter case,
  padded with any white space, is normalised to the canonical name of the label, as the
  label itself is.
\<close>

theorem normalize_category_labels:
  "normalize_category (normalize_category cat) = normalize_category cat
   \<and> map normalize_category canonical_names = canonical_names
   \<and> ((l, c) \<in> set listed_labels \<and> py_lower v = l
        \<and> list_all py_isspace ws1 \<and> list_all py_isspace ws2
      \<longrightarrow> normalize_category (ws1 @ v @ ws2) = c \<and> normalize_category l = c)"
proof (intro conjI impI)
  show "normalize_category (normalize_category cat) = normalize_category cat"
    by (rule normalize_idem)
  show "map normalize_category canonical_names = canonical_names"
    by (rule canonical_fixed)
next
  assume a: "(l, c) \<in> set listed_labels \<and> py_lower v = l
        \<and> list_all py_isspace ws1 \<and> list_all py_isspace ws2"
  then have s: "py_strip (ws1 @ v @ ws2) = v"
    by (intro variant_strip [of l c]) simp_all
  have m: "canonical_of l = Some c"
    using a by (intro listed_label(1)) simp
  from a have "canonical_of (py_lower (py_strip (ws1 @ v @ ws2))) = Some c"
    by (simp add: s m)
  then show "normalize_category (ws1 @ v @ ws2) = c"
    by (simp add: normalize_category_def)
  have "c \<in> set canonical_names"
    using m by (rule canonical_of_in)
  then have "normalize_category c = c"
    by (rule normalize_canonical)
  have "py_strip ([] @ l @ []) = l"
    using listed_label(2,3,4) [of l c] a by (intro py_strip_padded) simp_all
  moreover have "py_lower l = l"
  proof -
    have "py_lower (py_lower v) = py_lower v"
      by (auto simp: py_lower_def lower_cp_def)
    with a show ?thesis by simp
  qed
  ultimately show "normalize_category l = c"
    by (simp add: normalize_category_def m)
qed



lemmas normalize_eval = normalize_category_def exact_labels_def board_terms_def
  canonical_of_def ustr_def s_placa_mae_def py_strip_def py_lower_def lower_cp_def
  py_isspace_def

theorem normalize_category_labels_witness:
  "(ustr ''processador'', ustr ''CPU'') \<in> set listed_labels
   \<and> py_lower (ustr ''ProcessaDOR'') = ustr ''processador''
   \<and> list_all py_isspace [32, 9] \<and> list_all py_isspace [10]
   \<and> normalize_category ([32, 9] @ ustr ''ProcessaDOR'' @ [10]) = ustr ''CPU''
   \<and> normalize_category (ustr ''processador'') = ustr ''CPU''"
proof -
  have h: "(ustr ''processador'', ustr ''CPU'') \<in> set listed_labels
     \<and> py_lower (ustr ''ProcessaDOR'') = ustr ''processador''
     \<and> list_all py_isspace [32, 9] \<and> list_all py_isspace [10]"
    by (simp add: listed_labels_def normalize_eval)
  with normalize_category_labels [of "[]" "ustr ''processador''" "ustr ''CPU''"
      "ustr ''ProcessaDOR''" "[32, 9]" "[10]"]
  show ?thesis by blast
qed

theorem normalize_category_processor_counterexample:
  "normalize_category (ustr ''PROCESSOR'') \<noteq> normalize_category (ustr ''processor'')
   \<and> normalize_category (ustr ''processor'') \<noteq> ustr ''CPU''
   \<and> normalize_category (ustr ''memory'') \<noteq> ustr ''RAM''"
  by (simp add: normalize_eval)



section \<open>The catalog indexes\<close>

lemma parts_in_add:
  "parts_in (add_part p cat) c =
     (if c = normalize_category (category p)
      then parts_in cat c @ [p\<lparr>category := normalize_category (category p)\<rparr>]
      else parts_in cat c)"
  by (simp add: add_part_def Let_def parts_in_def)

lemma find_part_add:
  "find_part (add_part p cat) i =
     (if i = part_id p then Some (p\<lparr>category := normalize_category (category p)\<rparr>)
      else find_part cat i)"
  by (simp add: add_part_def Let_def find_part_def)

lemma cat_inv_init: "cat_inv Catalog_init"
  by (simp add: cat_inv_def Catalog_init_def find_part_def parts_in_def)

lemma cat_inv_add:
  assumes "cat_inv cat"
  shows "cat_inv (add_part p cat)"
proof -
  let ?n = "normalize_category (category p)"
  let ?p = "p\<lparr>category := ?n\<rparr>"
  from assms have a: "\<And>i q. find_part cat i = Some q \<Longrightarrow>
      part_id q = i \<and> q \<in> set (parts_in cat (category q))"
    and b: "\<And>c q. q \<in> set (parts_in cat c) \<Longrightarrow>
      category q = c \<and> normalize_category c = c \<and> find_part cat (part_id q) \<noteq> None"
    unfolding cat_inv_def by blast+
  have 1: "part_id q = i \<and> q \<in> set (parts_in (add_part p cat) (category q))"
    if f: "find_part (add_part p cat) i = Some q" for i q
  proof (cases "i = part_id p")
    case True
    with f have "q = ?p" by (simp add: find_part_add)
    with True show ?thesis by (simp add: parts_in_add)
  next
    case False
    with f have "find_part cat i = Some q" by (simp add: find_part_add)
    from a [OF this] show ?thesis by (auto simp: parts_in_add)
  qed
  have 2: "category q = c \<and> normalize_category c = c
      \<and> find_part (add_part p cat) (part_id q) \<noteq> None"
    if m: "q \<in> set (parts_in (add_part p cat) c)" for c q
  proof (cases "q \<in> set (parts_in cat c)")
    case True
    from b [OF this] show ?thesis by (simp add: find_part_add)
  next
    case False
    with m have "c = ?n \<and> q = ?p"
      by (simp add: parts_in_add split: if_splits)
    then show ?thesis by (simp add: find_part_add normalize_idem)
  qed
  from 1 2 show ?thesis unfolding cat_inv_def by blast
qed

lemma cat_inv_add_all: "cat_inv cat \<Longrightarrow> cat_inv (add_all ps cat)"
  by (induction ps arbitrary: cat) (simp_all add: cat_inv_add)



lemma unique_ids_add:
  assumes "find_part cat (part_id p) = None"
    and "\<And>c q. q \<in> set (parts_in cat c) \<Longrightarrow> find_part cat (part_id q) = Some q"
    and "q \<in> set (parts_in (add_part p cat) c)"
  shows "find_part (add_part p cat) (part_id q) = Some q"
proof (cases "q \<in> set (parts_in cat c)")
  case True
  then have "find_part cat (part_id q) = Some q" by (rule assms(2))
  with assms(1) show ?thesis by (auto simp: find_part_add)
next
  case False
  with assms(3) have "q = p\<lparr>category := normalize_category (category p)\<rparr>"
    by (simp add: parts_in_add split: if_splits)
  then show ?thesis by (simp add: find_part_add)
qed

lemma unique_ids_add_all:
  assumes "distinct (map part_id ps)"
    and "\<And>p. p \<in> set ps \<Longrightarrow> find_part cat (part_id p) = None"
    and "\<And>c q. q \<in> set (parts_in cat c) \<Longrightarrow> find_part cat (part_id q) = Some q"
    and "q \<in> set (parts_in (add_all ps cat) c)"
  shows "find_part (add_all ps cat) (part_id q) = Some q"
  using assms
proof (induction ps arbitrary: cat)
  case Nil
  then show ?case by simp
next
  case (Cons p ps)
  have n: "find_part cat (part_id p) = None"
    by (rule Cons.prems(2)) simp
  show ?case
    unfolding add_all.simps
  proof (rule Cons.IH)
    show "distinct (map part_id ps)"
      using Cons.prems(1) by simp
    show "find_part (add_part p cat) (part_id r) = None" if "r \<in> set ps" for r
    proof -
      have "part_id r \<in> part_id ` set ps"
        using that by (rule imageI)
      moreover have "part_id p \<notin> part_id ` set ps"
        using Cons.prems(1) by simp
      ultimately have "part_id r \<noteq> part_id p"
        by metis
      moreover have "find_part cat (part_id r) = None"
        by (rule Cons.prems(2)) (simp add: that)
      ultimately show ?thesis by (simp add: find_part_add)
    qed
    show "find_part (add_part p cat) (part_id r) = Some r"
      if "r \<in> set (parts_in (add_part p cat) c')" for c' r
      using n Cons.prems(3) that by (rule unique_ids_add)
    show "q \<in> set (parts_in (add_all ps (add_part p cat)) c)"
      using Cons.prems(4) by simp
  qed
qed

text \<open>
  C6 (as amended). After any sequence of additions to an empty catalog: a part found by
  id carries that id and stands in the list of its own category; a part in the list of a
  category carries that category as its own, the category is a fixed point of the
  normalisation, and the part's id is indexed (by this part or by a later one of the same
  id); and when no id was added twice, every part in a category list is the part found
  under its id.
\<close>

theorem catalog_indexes_agree:
  "(find_part (add_all ps Catalog_init) i = Some p \<longrightarrow>
      part_id p = i \<and> p \<in> set (parts_in (add_all ps Catalog_init) (category p)))
   \<and> (p \<in> set (parts_in (add_all ps Catalog_init) c) \<longrightarrow>
      category p = c \<and> normalize_category c = c
      \<and> find_part (add_all ps Catalog_init) (part_id p) \<noteq> None)
   \<and> (distinct (map part_id ps) \<and> p \<in> set (parts_in (add_all ps Catalog_init) c) \<longrightarrow>
      find_part (add_all ps Catalog_init) (part_id p) = Some p)"
proof -
  have "cat_inv (add_all ps Catalog_init)"
    using cat_inv_init by (rule cat_inv_add_all)
  then have 1: "find_part (add_all ps Catalog_init) i = Some p \<longrightarrow>
      part_id p = i \<and> p \<in> set (parts_in (add_all ps Catalog_init) (category p))"
    and 2: "p \<in> set (parts_in (add_all ps Catalog_init) c) \<longrightarrow>
      category p = c \<and> normalize_category c = c
      \<and> find_part (add_all ps Catalog_init) (part_id p) \<noteq> None"
    unfolding cat_inv_def by blast+
  have 3: "find_part (add_all ps Catalog_init) (part_id p) = Some p"
    if "distinct (map part_id ps)" and "p \<in> set (parts_in (add_all ps Catalog_init) c)"
  proof (rule unique_ids_add_all [OF that(1) _ _ that(2)])
    show "find_part Catalog_init (part_id r) = None" for r
      by (simp add: Catalog_init_def find_part_def)
    show "find_part Catalog_init (part_id q) = Some q"
      if "q \<in> set (parts_in Catalog_init c')" for c' q
      using that by (simp add: Catalog_init_def parts_in_def)
  qed
  from 1 2 3 show ?thesis by blast
qed



lemma normalize_examples:
  "normalize_category (ustr ''cpu'') = ustr ''CPU''"
  "normalize_category (ustr ''Processador'') = ustr ''CPU''"
  "normalize_category (ustr '' ram '') = ustr ''RAM''"
  by (simp_all add: normalize_eval)

lemma ids_x_y: "ustr ''x'' \<noteq> ustr ''y''" "ustr ''CPU'' \<noteq> ustr ''RAM''"
  by (simp_all add: ustr_def)

lemma catalog_init_empty:
  "find_part Catalog_init i = None" "parts_in Catalog_init c = []"
  by (simp_all add: Catalog_init_def find_part_def parts_in_def)

lemma catalog_x_y:
  "find_part (add_all [part_x_old, part_y] Catalog_init) (ustr ''y'')
     = Some (part_y\<lparr>category := ustr ''RAM''\<rparr>)"
  "parts_in (add_all [part_x_old, part_y] Catalog_init) (ustr ''RAM'')
     = [part_y\<lparr>category := ustr ''RAM''\<rparr>]"
proof -
  have c: "category part_x_old = ustr ''cpu''" "category part_y = ustr '' ram ''"
    "part_id part_x_old = ustr ''x''" "part_id part_y = ustr ''y''"
    by (simp_all add: part_x_old_def part_y_def)
  show "find_part (add_all [part_x_old, part_y] Catalog_init) (ustr ''y'')
     = Some (part_y\<lparr>category := ustr ''RAM''\<rparr>)"
    by (simp add: find_part_add c normalize_examples)
  show "parts_in (add_all [part_x_old, part_y] Catalog_init) (ustr ''RAM'')
     = [part_y\<lparr>category := ustr ''RAM''\<rparr>]"
    using ids_x_y(2) by (simp add: parts_in_add c normalize_examples catalog_init_empty)
qed

theorem catalog_indexes_agree_witness:
  "find_part (add_all [part_x_old, part_y] Catalog_init) (ustr ''y'')
     = Some (part_y\<lparr>category := ustr ''RAM''\<rparr>)
   \<and> part_y\<lparr>category := ustr ''RAM''\<rparr>
       \<in> set (parts_in (add_all [part_x_old, part_y] Catalog_init) (ustr ''RAM''))
   \<and> distinct (map part_id [part_x_old, part_y])
   \<and> part_id (part_y\<lparr>category := ustr ''RAM''\<rparr>) = ustr ''y''
   \<and> category (part_y\<lparr>category := ustr ''RAM''\<rparr>) = ustr ''RAM''
   \<and> normalize_category (ustr ''RAM'') = ustr ''RAM''
   \<and> find_part (add_all [part_x_old, part_y] Catalog_init)
         (part_id (part_y\<lparr>category := ustr ''RAM''\<rparr>))
       = Some (part_y\<lparr>category := ustr ''RAM''\<rparr>)"
proof -
  have h1: "find_part (add_all [part_x_old, part_y] Catalog_init) (ustr ''y'')
     = Some (part_y\<lparr>category := ustr ''RAM''\<rparr>)"
    by (rule catalog_x_y)
  have h2: "part_y\<lparr>category := ustr ''RAM''\<rparr>
       \<in> set (parts_in (add_all [part_x_old, part_y] Catalog_init) (ustr ''RAM''))"
    unfolding catalog_x_y by simp
  have h3: "distinct (map part_id [part_x_old, part_y])"
    by (simp add: part_x_old_def part_y_def ids_x_y)
  from h1 h2 h3 catalog_indexes_agree [of "[part_x_old, part_y]" "ustr ''y''"
      "part_y\<lparr>category := ustr ''RAM''\<rparr>" "ustr ''RAM''"]
  show ?thesis by blast
qed

lemma catalog_x_x:
  "by_id (add_all [part_x_old, part_x_new] Catalog_init)
     = [ustr ''x'' \<mapsto> part_x_new\<lparr>category := ustr ''CPU''\<rparr>]"
  "parts_in (add_all [part_x_old, part_x_new] Catalog_init) (ustr ''CPU'')
     = [part_x_old\<lparr>category := ustr ''CPU''\<rparr>, part_x_new\<lparr>category := ustr ''CPU''\<rparr>]"
proof -
  have c: "category part_x_old = ustr ''cpu''" "category part_x_new = ustr ''Processador''"
    "part_id part_x_old = ustr ''x''" "part_id part_x_new = ustr ''x''"
    by (simp_all add: part_x_old_def part_x_new_def)
  show "by_id (add_all [part_x_old, part_x_new] Catalog_init)
     = [ustr ''x'' \<mapsto> part_x_new\<lparr>category := ustr ''CPU''\<rparr>]"
    by (simp add: add_part_def Let_def c normalize_examples Catalog_init_def)
  show "parts_in (add_all [part_x_old, part_x_new] Catalog_init) (ustr ''CPU'')
     = [part_x_old\<lparr>category := ustr ''CPU''\<rparr>, part_x_new\<lparr>category := ustr ''CPU''\<rparr>]"
    by (simp add: parts_in_add c normalize_examples catalog_init_empty)
qed

theorem catalog_readd_counterexample:
  "part_x_old\<lparr>category := ustr ''CPU''\<rparr>
     \<in> set (parts_in (add_all [part_x_old, part_x_new] Catalog_init) (ustr ''CPU''))
   \<and> part_x_old\<lparr>category := ustr ''CPU''\<rparr>
     \<notin> ran (by_id (add_all [part_x_old, part_x_new] Catalog_init))"
proof -
  have "ustr ''old'' \<noteq> ustr ''new''" by (simp add: ustr_def)
  then have "part_x_old\<lparr>category := ustr ''CPU''\<rparr> \<noteq> part_x_new\<lparr>category := ustr ''CPU''\<rparr>"
    by (simp add: part_x_old_def part_x_new_def)
  then show ?thesis
    unfolding catalog_x_x by simp
qed

end
